theory Spec2Isabelle
  imports Main "HOL-Library.Monad_Syntax"
begin

section \<open>Python strings\<close>

text \<open>
  A Python \<open>str\<close> is modelled by the list of the bytes of its UTF-8 encoding
  (\<^typ>\<open>string\<close>). The character classes of \<open>re\<close> (\<open>\w\<close>, \<open>\s\<close>,
  \<open>\d\<close>) are modelled on the ASCII range: a byte outside ASCII belongs to no class.

  \<open>str.lower()\<close> and \<open>str.upper()\<close> follow the case mappings of Unicode: a
  character outside ASCII may become an ASCII letter, one character may become two, and
  a mapping may depend on the neighbours. Wherever the source applies them to text that
  comes from outside, they are parameters \<open>lower\<close> and \<open>upper\<close> of the model, of
  which nothing is assumed. On ASCII text they are \<open>ascii_lower\<close> and
  \<open>ascii_upper\<close> below, which model them on the constants of the source and stand
  for them in the examples.
\<close>

abbreviation ord :: "char \<Rightarrow> nat" where
  "ord \<equiv> of_char"

definition is_ascii_upper :: "char \<Rightarrow> bool" where
  "is_ascii_upper c \<longleftrightarrow> 65 \<le> ord c \<and> ord c \<le> 90"

definition is_ascii_lower :: "char \<Rightarrow> bool" where
  "is_ascii_lower c \<longleftrightarrow> 97 \<le> ord c \<and> ord c \<le> 122"

definition is_digit :: "char \<Rightarrow> bool" where
  "is_digit c \<longleftrightarrow> 48 \<le> ord c \<and> ord c \<le> 57"

text \<open>
  Upper and lower case letters differ in the bit of weight 32, bit 5 of the code:
  \<open>chr(ord(c) + 32)\<close> sets it on an upper case letter and \<open>chr(ord(c) - 32)\<close>
  clears it on a lower case letter.
\<close>

fun set_bit5 :: "char \<Rightarrow> char" where
  "set_bit5 (Char b0 b1 b2 b3 b4 b5 b6 b7) = Char b0 b1 b2 b3 b4 True b6 b7"

fun clear_bit5 :: "char \<Rightarrow> char" where
  "clear_bit5 (Char b0 b1 b2 b3 b4 b5 b6 b7) = Char b0 b1 b2 b3 b4 False b6 b7"

definition lower_char :: "char \<Rightarrow> char" where
  "lower_char c = (if is_ascii_upper c then set_bit5 c else c)"

definition upper_char :: "char \<Rightarrow> char" where
  "upper_char c = (if is_ascii_lower c then clear_bit5 c else c)"

text \<open>\<open>s.lower()\<close> and \<open>s.upper()\<close> for an ASCII text \<open>s\<close>.\<close>

definition ascii_lower :: "string \<Rightarrow> string" where
  "ascii_lower s = map lower_char s"

definition ascii_upper :: "string \<Rightarrow> string" where
  "ascii_upper s = map upper_char s"

text \<open>\<open>s.startswith(p)\<close>, \<open>s.endswith(p)\<close> and the substring test \<open>p in s\<close>.\<close>

fun startswith :: "string \<Rightarrow> string \<Rightarrow> bool" where
  "startswith s [] = True"
| "startswith [] (p # ps) = False"
| "startswith (c # cs) (p # ps) = (c = p \<and> startswith cs ps)"

definition endswith :: "string \<Rightarrow> string \<Rightarrow> bool" where
  "endswith s p = startswith (rev s) (rev p)"

fun str_in :: "string \<Rightarrow> string \<Rightarrow> bool" where
  "str_in p [] = (p = [])"
| "str_in p (c # cs) = (startswith (c # cs) p \<or> str_in p cs)"

text \<open>\<open>s.replace(a, b)\<close> for single characters \<open>a\<close> and \<open>b\<close>.\<close>

definition replace_char :: "char \<Rightarrow> char \<Rightarrow> string \<Rightarrow> string" where
  "replace_char a b s = map (\<lambda>c. if c = a then b else c) s"

text \<open>\<open>s.lstrip(chars)\<close>, \<open>s.rstrip(chars)\<close> and \<open>s.strip(chars)\<close>.\<close>

definition lstrip_chars :: "string \<Rightarrow> string \<Rightarrow> string" where
  "lstrip_chars chars s = dropWhile (\<lambda>c. c \<in> set chars) s"

definition rstrip_chars :: "string \<Rightarrow> string \<Rightarrow> string" where
  "rstrip_chars chars s = rev (dropWhile (\<lambda>c. c \<in> set chars) (rev s))"

definition strip_chars :: "string \<Rightarrow> string \<Rightarrow> string" where
  "strip_chars chars s = rstrip_chars chars (lstrip_chars chars s)"


text \<open>
  The white space of \<open>str.strip()\<close>, \<open>str.isspace()\<close> and \<open>\s\<close>: the codes
  9 to 13 (tab, line feed, vertical tab, form feed, carriage return), 28 to 31 (the
  separators) and 32 (space). The word characters of \<open>\w\<close>: letters, digits and the
  underscore.
\<close>

abbreviation LF :: char where
  "LF \<equiv> CHR 0x0A"

abbreviation CR :: char where
  "CR \<equiv> CHR 0x0D"

definition is_space :: "char \<Rightarrow> bool" where
  "is_space c \<longleftrightarrow> (9 \<le> ord c \<and> ord c \<le> 13) \<or> (28 \<le> ord c \<and> ord c \<le> 32)"

definition is_word :: "char \<Rightarrow> bool" where
  "is_word c \<longleftrightarrow> is_ascii_upper c \<or> is_ascii_lower c \<or> is_digit c \<or> c = CHR ''_''"

definition lstrip :: "string \<Rightarrow> string" where
  "lstrip s = dropWhile is_space s"

definition rstrip :: "string \<Rightarrow> string" where
  "rstrip s = rev (dropWhile is_space (rev s))"

definition strip :: "string \<Rightarrow> string" where
  "strip s = rstrip (lstrip s)"

text \<open>\<open>s.count(c)\<close> for a single character.\<close>

definition count_char :: "char \<Rightarrow> string \<Rightarrow> nat" where
  "count_char c s = length (filter (\<lambda>d. d = c) s)"

text \<open>
  \<open>s.splitlines(keepends)\<close>. A line ends at \<open>\r\n\<close>, at one of \<open>\n\<close>, \<open>\r\<close>,
  \<open>\v\<close>, \<open>\f\<close>, \<open>\x1c\<close>, \<open>\x1d\<close>, \<open>\x1e\<close>, or at one of the code points
  U+0085, U+2028 and U+2029, which are two and three bytes long in UTF-8.
  \<open>linebreak s\<close> is the length of the line boundary at the head of \<open>s\<close>, and 0
  when there is none.
\<close>

definition linebreak :: "string \<Rightarrow> nat" where
  "linebreak s =
     (if startswith s [CR, LF] then 2
      else if s \<noteq> [] \<and> hd s \<in> set [LF, CR, CHR 0x0B, CHR 0x0C, CHR 0x1C, CHR 0x1D, CHR 0x1E]
      then 1
      else if startswith s [CHR 0xC2, CHR 0x85] then 2
      else if startswith s [CHR 0xE2, CHR 0x80, CHR 0xA8]
              \<or> startswith s [CHR 0xE2, CHR 0x80, CHR 0xA9] then 3
      else 0)"

function splitlines_from :: "bool \<Rightarrow> string \<Rightarrow> string \<Rightarrow> string list" where
  "splitlines_from keepends cur [] = (if cur = [] then [] else [cur])"
| "splitlines_from keepends cur (c # cs) =
     (let k = linebreak (c # cs)
      in if k = 0 then splitlines_from keepends (cur @ [c]) cs
         else (cur @ (if keepends then take k (c # cs) else []))
              # splitlines_from keepends [] (drop k (c # cs)))"
  by pat_completeness auto
termination
  by (relation "measure (\<lambda>(keepends, cur, s). length s)") auto

definition splitlines :: "bool \<Rightarrow> string \<Rightarrow> string list" where
  "splitlines keepends s = splitlines_from keepends [] s"

text \<open>\<open>str(n)\<close> for an integer, and \<open>int(s)\<close> for a string of digits.\<close>

definition digit_char :: "nat \<Rightarrow> char" where
  "digit_char d = ''0123456789'' ! d"

fun digits_of_nat :: "nat \<Rightarrow> string" where
  "digits_of_nat n =
     (if n < 10 then [digit_char n] else digits_of_nat (n div 10) @ [digit_char (n mod 10)])"

declare digits_of_nat.simps [simp del]

definition str_of_int :: "int \<Rightarrow> string" where
  "str_of_int i = (if i < 0 then CHR ''-'' # digits_of_nat (nat (- i)) else digits_of_nat (nat i))"

definition int_of_digits :: "string \<Rightarrow> int" where
  "int_of_digits s = foldl (\<lambda>acc c. 10 * acc + (int (ord c) - 48)) 0 s"

subsection \<open>Pieces of regular expressions\<close>

text \<open>
  The regular expressions of the source are matched by hand-written functions. Each
  piece takes the text at the current position and gives the rest after the piece,
  with what the piece captured, or \<open>None\<close>. \<open>lit\<close> is a literal, \<open>many1 P\<close> the
  greedy \<open>[P]+\<close> and \<open>optional P\<close> the greedy \<open>[P]?\<close>. A greedy run is followed
  in every pattern below by a piece that cannot start with a character of the run, so
  giving characters back never helps and the longest run is the only candidate.
  \<open>search f\<close> tries \<open>f\<close> at every position from the left, as \<open>re.search\<close> does.
\<close>

definition lit :: "string \<Rightarrow> string \<Rightarrow> string option" where
  "lit p s = (if startswith s p then Some (drop (length p) s) else None)"

definition many1 :: "(char \<Rightarrow> bool) \<Rightarrow> string \<Rightarrow> (string \<times> string) option" where
  "many1 P s = (if takeWhile P s = [] then None else Some (takeWhile P s, dropWhile P s))"

definition optional :: "(char \<Rightarrow> bool) \<Rightarrow> string \<Rightarrow> string" where
  "optional P s = (case s of [] \<Rightarrow> [] | c # cs \<Rightarrow> if P c then cs else c # cs)"

fun search :: "(string \<Rightarrow> 'a option) \<Rightarrow> string \<Rightarrow> 'a option" where
  "search f [] = f []"
| "search f (c # cs) = (case f (c # cs) of Some r \<Rightarrow> Some r | None \<Rightarrow> search f cs)"


section \<open>Scoring: \<open>score_agent.py\<close>\<close>

record ScoreBreakdown =
  base_score :: int
  time_bonus :: int
  commit_penalty :: int
  final_score :: int

definition calculate_score :: "int \<Rightarrow> int \<Rightarrow> ScoreBreakdown" where
  "calculate_score execution_time_seconds commits =
     (let base = 100;
          bonus = (if execution_time_seconds < 300 then 10 else 0);
          penalty = (if commits > 20 then (commits - 20) * 2 else 0);
          final = max (base + bonus - penalty) 0
      in \<lparr>base_score = base, time_bonus = bonus, commit_penalty = penalty,
          final_score = final\<rparr>)"


section \<open>Branch names: \<open>git_agent.py\<close>\<close>

text \<open>\<open>re.sub(r"[^A-Z_]", "", s)\<close> keeps exactly the characters of the class.\<close>

definition is_upper_or_underscore :: "char \<Rightarrow> bool" where
  "is_upper_or_underscore c \<longleftrightarrow> is_ascii_upper c \<or> c = CHR ''_''"

definition sub_non_upper :: "string \<Rightarrow> string" where
  "sub_non_upper s = filter is_upper_or_underscore s"

text \<open>\<open>re.sub(r"_+", "_", s)\<close>: every maximal run of underscores becomes one.\<close>

function sub_underscores :: "string \<Rightarrow> string" where
  "sub_underscores [] = []"
| "sub_underscores (c # cs) =
     (if c = CHR ''_'' then CHR ''_'' # sub_underscores (dropWhile (\<lambda>d. d = CHR ''_'') cs)
      else c # sub_underscores cs)"
  by pat_completeness auto
termination
  by (relation "measure length") (auto simp: le_imp_less_Suc length_dropWhile_le)

definition normalize_name :: "(string \<Rightarrow> string) \<Rightarrow> string \<Rightarrow> string" where
  "normalize_name upper v =
     (let uppercase = replace_char CHR '' '' CHR ''_'' (upper v);
          normalized = sub_non_upper uppercase
      in strip_chars ''_'' (sub_underscores normalized))"

definition build_branch_name :: "(string \<Rightarrow> string) \<Rightarrow> string \<Rightarrow> string \<Rightarrow> string" where
  "build_branch_name upper team_name leader_name =
     normalize_name upper team_name @ ''_'' @ normalize_name upper leader_name @ ''_AI_Fix''"

text \<open>
  \<open>BRANCH_PATTERN.fullmatch\<close> for \<open>^[A-Z_]+_AI_Fix$\<close>: the whole string is a
  non-empty run of the class followed by the literal suffix. The suffix has a fixed
  length, so the split is the only one possible.
\<close>

definition BRANCH_PATTERN_fullmatch :: "string \<Rightarrow> bool" where
  "BRANCH_PATTERN_fullmatch b =
     (let k = length b - length ''_AI_Fix''
      in length ''_AI_Fix'' < length b \<and> drop k b = ''_AI_Fix''
         \<and> list_all is_upper_or_underscore (take k b))"

definition validate_branch_name :: "string \<Rightarrow> bool" where
  "validate_branch_name b \<longleftrightarrow> BRANCH_PATTERN_fullmatch b \<and> endswith b ''_AI_Fix''"


section \<open>Bug classification: \<open>models.py\<close>, \<open>failure_parser_agent.py\<close>\<close>

datatype BugType = LINTING | SYNTAX | LOGIC | TYPE_ERROR | IMPORT | INDENTATION

text \<open>\<open>FailureParserAgent._classify_bug_type\<close>.\<close>

definition classify_bug_type :: "(string \<Rightarrow> string) \<Rightarrow> string \<Rightarrow> string \<Rightarrow> BugType" where
  "classify_bug_type lower error_type message =
     (let error_lower = lower error_type;
          message_lower = lower message
      in if str_in ''importerror'' error_lower \<or> str_in ''modulenotfounderror'' error_lower
         then IMPORT
         else if str_in ''import'' message_lower
                 \<and> (str_in ''cannot'' message_lower \<or> str_in ''no module'' message_lower)
         then IMPORT
         else if str_in ''nameerror'' error_lower \<and> str_in ''is not defined'' message_lower
         then IMPORT
         else if str_in ''syntaxerror'' error_lower \<or> str_in ''invalidsyntax'' error_lower
         then SYNTAX
         else if str_in ''syntax'' message_lower
         then SYNTAX
         else if str_in ''indentationerror'' error_lower \<or> str_in ''taberror'' error_lower
         then INDENTATION
         else if str_in ''indent'' message_lower \<or> str_in ''unexpected indent'' message_lower
         then INDENTATION
         else if str_in ''typeerror'' error_lower \<or> str_in ''attributeerror'' error_lower
         then TYPE_ERROR
         else if str_in ''type'' message_lower
                 \<and> (str_in ''expected'' message_lower \<or> str_in ''got'' message_lower)
         then TYPE_ERROR
         else if str_in ''lint'' message_lower \<or> str_in ''flake8'' message_lower
                 \<or> str_in ''pylint'' message_lower
         then LINTING
         else LOGIC)"

subsection \<open>The classification rules as the specification words them\<close>

text \<open>
  The specification gives five rules, tried in order, and a default. Each rule is a
  case-insensitive keyword test on the error type or on the message: a keyword in
  lower case is looked for in what \<open>lower\<close> makes of the text. The classifier is
  the first rule that matches, and \<open>LOGIC\<close> when none does.
\<close>

definition contains_ci :: "(string \<Rightarrow> string) \<Rightarrow> string \<Rightarrow> string \<Rightarrow> bool" where
  "contains_ci lower keyword s = str_in keyword (lower s)"

definition rule_import :: "(string \<Rightarrow> string) \<Rightarrow> string \<Rightarrow> string \<Rightarrow> bool" where
  "rule_import lower e m \<longleftrightarrow>
     (contains_ci lower ''importerror'' e \<or> contains_ci lower ''modulenotfounderror'' e)
     \<or> (contains_ci lower ''import'' m \<and> (contains_ci lower ''cannot'' m \<or> contains_ci lower ''no module'' m))
     \<or> (contains_ci lower ''nameerror'' e \<and> contains_ci lower ''is not defined'' m)"

definition rule_syntax :: "(string \<Rightarrow> string) \<Rightarrow> string \<Rightarrow> string \<Rightarrow> bool" where
  "rule_syntax lower e m \<longleftrightarrow>
     (contains_ci lower ''syntaxerror'' e \<or> contains_ci lower ''invalidsyntax'' e)
     \<or> contains_ci lower ''syntax'' m"

definition rule_indentation :: "(string \<Rightarrow> string) \<Rightarrow> string \<Rightarrow> string \<Rightarrow> bool" where
  "rule_indentation lower e m \<longleftrightarrow>
     (contains_ci lower ''indentationerror'' e \<or> contains_ci lower ''taberror'' e)
     \<or> (contains_ci lower ''indent'' m \<or> contains_ci lower ''unexpected indent'' m)"

definition rule_type_error :: "(string \<Rightarrow> string) \<Rightarrow> string \<Rightarrow> string \<Rightarrow> bool" where
  "rule_type_error lower e m \<longleftrightarrow>
     (contains_ci lower ''typeerror'' e \<or> contains_ci lower ''attributeerror'' e)
     \<or> (contains_ci lower ''type'' m \<and> (contains_ci lower ''expected'' m \<or> contains_ci lower ''got'' m))"

definition rule_linting :: "(string \<Rightarrow> string) \<Rightarrow> string \<Rightarrow> string \<Rightarrow> bool" where
  "rule_linting lower e m \<longleftrightarrow>
     contains_ci lower ''lint'' m \<or> contains_ci lower ''flake8'' m \<or> contains_ci lower ''pylint'' m"

definition priority_rules ::
  "(string \<Rightarrow> string) \<Rightarrow> ((string \<Rightarrow> string \<Rightarrow> bool) \<times> BugType) list"
where
  "priority_rules lower =
     [(rule_import lower, IMPORT), (rule_syntax lower, SYNTAX),
      (rule_indentation lower, INDENTATION), (rule_type_error lower, TYPE_ERROR),
      (rule_linting lower, LINTING)]"

fun first_match ::
  "((string \<Rightarrow> string \<Rightarrow> bool) \<times> BugType) list \<Rightarrow> BugType \<Rightarrow> string \<Rightarrow> string \<Rightarrow> BugType"
where
  "first_match [] fallback e m = fallback"
| "first_match ((rule, category) # rules) fallback e m =
     (if rule e m then category else first_match rules fallback e m)"



section \<open>Fix synthesis: \<open>fix_agent.py\<close>\<close>

text \<open>
  The exceptions raised in the source, as values. A function that can raise returns
  \<open>error + 'a\<close>, with \<open>Inl\<close> for the exception.
\<close>

datatype error =
    UnknownBugType
  | StrictOutputFormatViolation string
  | UncaughtParserError
  | OSError
  | NoTestFilesFound
  | NoStructuredFailures
  | InvalidCommitPrefix
  | CollaboratorError string

subsection \<open>The fix descriptor\<close>

text \<open>\<open>bug_type.value\<close>, the string of a member of the enumeration.\<close>

fun BugType_value :: "BugType \<Rightarrow> string" where
  "BugType_value LINTING = ''LINTING''"
| "BugType_value SYNTAX = ''SYNTAX''"
| "BugType_value LOGIC = ''LOGIC''"
| "BugType_value TYPE_ERROR = ''TYPE_ERROR''"
| "BugType_value IMPORT = ''IMPORT''"
| "BugType_value INDENTATION = ''INDENTATION''"

text \<open>
  The annotation \<open>bug_type: BugType\<close> is not enforced when the program runs, so the
  argument of \<open>generate_fix\<close> is either a member of the enumeration or \<open>Foreign\<close>,
  which stands for any object that is equal to no member.
\<close>

datatype category = Member BugType | Foreign

definition FIX_MAPPING :: "(BugType \<times> string) list" where
  "FIX_MAPPING =
     [(IMPORT, ''add the missing import statement''),
      (SYNTAX, ''add the missing colon at the correct position''),
      (INDENTATION, ''correct the indentation''),
      (TYPE_ERROR, ''correct the type usage''),
      (LOGIC, ''correct the return statement logic''),
      (LINTING, ''remove the unused import statement'')]"

text \<open>\<open>bug_type in FIX_MAPPING\<close> and \<open>FIX_MAPPING[bug_type]\<close> in one lookup.\<close>

definition FIX_MAPPING_get :: "category \<Rightarrow> string option" where
  "FIX_MAPPING_get bug_type =
     (case bug_type of Member b \<Rightarrow> map_of FIX_MAPPING b | Foreign \<Rightarrow> None)"

definition generate_deterministic_fix :: "category \<Rightarrow> error + string" where
  "generate_deterministic_fix bug_type =
     (case FIX_MAPPING_get bug_type of
        None \<Rightarrow> Inl UnknownBugType
      | Some description \<Rightarrow> Inr description)"

text \<open>The arrow U+2192 of the descriptor, three bytes in UTF-8.\<close>

abbreviation arrow :: string where
  "arrow \<equiv> [CHR 0xE2, CHR 0x86, CHR 0x92]"

text \<open>
  \<open>re.match\<close> of \<open>^[A-Z_]+ error in .+ line \d+ \<rightarrow> Fix: .+$\<close>. The first
  \<open>.+\<close> may end anywhere, so every end is tried: \<open>dot_plus_then k s\<close> holds when
  \<open>s\<close> is a non-empty run without line feed followed by a rest that \<open>k\<close> accepts.
  The last \<open>.+$\<close> is a non-empty run without line feed up to the end of the text, or
  up to a line feed that ends the text.
\<close>

fun dot_plus_then :: "(string \<Rightarrow> bool) \<Rightarrow> string \<Rightarrow> bool" where
  "dot_plus_then k [] = False"
| "dot_plus_then k (c # cs) = (c \<noteq> LF \<and> (k cs \<or> dot_plus_then k cs))"

definition dot_plus_end :: "string \<Rightarrow> bool" where
  "dot_plus_end s =
     (let body = (if s \<noteq> [] \<and> last s = LF then butlast s else s)
      in body \<noteq> [] \<and> LF \<notin> set body)"

definition strict_tail :: "string \<Rightarrow> bool" where
  "strict_tail s =
     (case lit '' line '' s of
        None \<Rightarrow> False
      | Some r1 \<Rightarrow>
          (case many1 is_digit r1 of
             None \<Rightarrow> False
           | Some (digits, r2) \<Rightarrow>
               (case lit ('' '' @ arrow @ '' Fix: '') r2 of
                  None \<Rightarrow> False
                | Some r3 \<Rightarrow> dot_plus_end r3)))"

definition strict_output_match :: "string \<Rightarrow> bool" where
  "strict_output_match s =
     (case many1 is_upper_or_underscore s of
        None \<Rightarrow> False
      | Some (bug, r1) \<Rightarrow>
          (case lit '' error in '' r1 of
             None \<Rightarrow> False
           | Some r2 \<Rightarrow> dot_plus_then strict_tail r2))"

definition validate_strict_output_format :: "string \<Rightarrow> error + unit" where
  "validate_strict_output_format strict_output =
     (if \<not> strict_output_match strict_output
      then Inl (StrictOutputFormatViolation strict_output)
      else Inr ())"

record FixProposal =
  fp_file :: string
  fp_line_number :: int
  fp_bug_type :: BugType
  fp_commit_message :: string
  fp_strict_output :: string

text \<open>
  \<open>FixAgent.generate_fix\<close>. The message takes no part. A foreign category never
  gets past the lookup, so \<open>bug_type.value\<close> is only read on a member. The value is
  one of six ASCII constants, on which \<open>lower()\<close> is \<open>ascii_lower\<close>.
\<close>

definition generate_fix :: "string \<Rightarrow> int \<Rightarrow> category \<Rightarrow> string \<Rightarrow> error + FixProposal" where
  "generate_fix file line_number bug_type message =
     (case generate_deterministic_fix bug_type of
        Inl e \<Rightarrow> Inl e
      | Inr specific_fix \<Rightarrow>
          (case bug_type of
             Foreign \<Rightarrow> Inl UnknownBugType
           | Member b \<Rightarrow>
               (let strict_output =
                      BugType_value b @ '' error in '' @ file @ '' line ''
                      @ str_of_int line_number @ '' '' @ arrow @ '' Fix: '' @ specific_fix
                in case validate_strict_output_format strict_output of
                     Inl e \<Rightarrow> Inl e
                   | Inr u \<Rightarrow>
                       Inr \<lparr>fp_file = file, fp_line_number = line_number, fp_bug_type = b,
                            fp_commit_message =
                              ''[AI-AGENT] Fix '' @ ascii_lower (BugType_value b)
                              @ '' issue in '' @ file,
                            fp_strict_output = strict_output\<rparr>)))"

subsection \<open>The heuristic transformations\<close>

definition common_imports :: "(string \<times> string) list" where
  "common_imports =
     [(''pytest'', ''import pytest''),
      (''unittest'', ''import unittest''),
      (''os'', ''import os''),
      (''sys'', ''import sys''),
      (''json'', ''import json''),
      (''time'', ''import time''),
      (''datetime'', ''from datetime import datetime''),
      (''path'', ''from pathlib import Path''),
      (''calculator'', ''from calculator import Calculator''),
      (''add'', ''from math_utils import add, multiply, divide''),
      (''multiply'', ''from math_utils import add, multiply, divide''),
      (''divide'', ''from math_utils import add, multiply, divide'')]"

abbreviation apostrophe :: char where
  "apostrophe \<equiv> CHR 0x27"

definition is_quote :: "char \<Rightarrow> bool" where
  "is_quote c \<longleftrightarrow> c = apostrophe \<or> c = CHR 0x22"

text \<open>
  \<open>no module named ['"]?(\w+)['"]?\<close> and \<open>name ['"]?(\w+)['"]? is not defined\<close>
  at one position; the value is group 1.
\<close>

definition no_module_named_at :: "string \<Rightarrow> string option" where
  "no_module_named_at s =
     (case lit ''no module named '' s of
        None \<Rightarrow> None
      | Some r \<Rightarrow> map_option fst (many1 is_word (optional is_quote r)))"

definition name_not_defined_at :: "string \<Rightarrow> string option" where
  "name_not_defined_at s =
     (case lit ''name '' s of
        None \<Rightarrow> None
      | Some r \<Rightarrow>
          (case many1 is_word (optional is_quote r) of
             None \<Rightarrow> None
           | Some (name, r2) \<Rightarrow>
               (case lit '' is not defined'' (optional is_quote r2) of
                  None \<Rightarrow> None
                | Some r3 \<Rightarrow> Some name)))"

text \<open>
  \<open>_generate_fix_with_heuristics\<close> is a sequence of blocks, one per bug type, each of
  which either returns the new content or falls through to the next. A block is
  modelled by a function to \<open>string option\<close>: \<open>Some\<close> is a \<open>return\<close>, \<open>None\<close>
  falls through.
\<close>

definition import_block ::
  "(string \<Rightarrow> string) \<Rightarrow> string \<Rightarrow> BugType \<Rightarrow> string \<Rightarrow> string \<Rightarrow> string option"
where
  "import_block lower original_content bug_type error_lower message_lower =
     (if bug_type = IMPORT \<or> str_in ''import'' error_lower then
        if str_in ''modulenotfounderror'' error_lower
           \<or> (str_in ''no module named'' message_lower \<and> \<not> str_in ''import'' message_lower)
        then Some []
        else
          (case (if str_in ''no module named'' message_lower \<and> str_in ''import'' message_lower
                 then search no_module_named_at message_lower else None) of
             Some module_name \<Rightarrow> Some (''import '' @ module_name @ [LF, LF] @ original_content)
           | None \<Rightarrow>
               (case (if str_in ''name'' message_lower \<and> str_in ''is not defined'' message_lower
                      then search name_not_defined_at message_lower else None) of
                  None \<Rightarrow> None
                | Some name \<Rightarrow>
                    (case map_of common_imports (lower name) of
                       None \<Rightarrow> None
                     | Some statement \<Rightarrow> Some (statement @ [LF, LF] @ original_content))))
      else None)"

definition compound_keywords :: "string list" where
  "compound_keywords =
     [''def '', ''class '', ''if '', ''elif '', ''else'', ''for '', ''while '', ''try'',
      ''except'', ''finally'', ''with '']"

definition syntax_block :: "string list \<Rightarrow> int \<Rightarrow> BugType \<Rightarrow> string \<Rightarrow> string option" where
  "syntax_block lines line_number bug_type message_lower =
     (if bug_type = SYNTAX \<and> line_number > 0 \<and> line_number \<le> int (length lines) then
        (let i = nat (line_number - 1);
             line = lines ! i
         in if (str_in (''expected '' @ [apostrophe] @ '':'' @ [apostrophe]) message_lower
                \<or> str_in ''invalid syntax'' message_lower)
               \<and> strip line \<noteq> [] \<and> \<not> endswith (rstrip line) '':''
               \<and> list_ex (\<lambda>keyword. str_in keyword line) compound_keywords
            then Some (concat (lines[i := rstrip line @ '':'' @ [LF]]))
            else if (str_in ''unclosed'' message_lower \<or> str_in ''unmatched'' message_lower)
                    \<and> count_char CHR ''('' line > count_char CHR '')'' line
            then Some (concat (lines[i := rstrip line
                   @ replicate (count_char CHR ''('' line - count_char CHR '')'' line) CHR '')''
                   @ [LF]]))
            else None)
      else None)"

definition indentation_block :: "string list \<Rightarrow> int \<Rightarrow> BugType \<Rightarrow> string option" where
  "indentation_block lines line_number bug_type =
     (if bug_type = INDENTATION \<and> line_number > 0 \<and> line_number \<le> int (length lines)
         \<and> line_number > 1 then
        (let prev_line = lines ! nat (line_number - 2);
             prev_indent = length prev_line - length (lstrip prev_line);
             current_line = lines ! nat (line_number - 1);
             current_content = lstrip current_line
         in Some (concat (lines[nat (line_number - 1) :=
                                  replicate prev_indent CHR '' '' @ current_content])))
      else None)"

text \<open>
  The blocks for \<open>TYPE_ERROR\<close> and \<open>LOGIC\<close> only inspect the line and write to the
  log; they never return, and the function ends with \<open>return ""\<close>.
\<close>

definition generate_fix_with_heuristics ::
  "(string \<Rightarrow> string) \<Rightarrow> string \<Rightarrow> int \<Rightarrow> BugType \<Rightarrow> string \<Rightarrow> string \<Rightarrow> string"
where
  "generate_fix_with_heuristics lower original_content line_number bug_type error_type message =
     (let lines = splitlines True original_content;
          message_lower = lower message;
          error_lower = lower error_type
      in case import_block lower original_content bug_type error_lower message_lower of
           Some fixed \<Rightarrow> fixed
         | None \<Rightarrow>
             (case syntax_block lines line_number bug_type message_lower of
                Some fixed \<Rightarrow> fixed
              | None \<Rightarrow>
                  (case indentation_block lines line_number bug_type of
                     Some fixed \<Rightarrow> fixed
                   | None \<Rightarrow> [])))"

definition generate_fixed_content ::
  "(string \<Rightarrow> string) \<Rightarrow> string \<Rightarrow> string \<Rightarrow> int \<Rightarrow> BugType \<Rightarrow> string \<Rightarrow> string \<Rightarrow> string"
where
  "generate_fixed_content lower original_content file_path line_number bug_type error_type
     message =
     generate_fix_with_heuristics lower original_content line_number bug_type error_type
       message"

subsection \<open>Applying a fix to a file\<close>

text \<open>
  The files under the repository. An entry holds the text that reading the file gives,
  whether opening it for reading succeeds (it may not: a directory, a file that is not
  UTF-8, missing rights), and whether opening it for writing succeeds. A failed
  \<open>open\<close> leaves the file as it is.

  A path is in one of three states. \<open>Path.exists()\<close> answers \<open>False\<close> on a
  \<open>Missing\<close> path and \<open>True\<close> on a \<open>Present\<close> one. On an \<open>Unreachable\<close> path it
  raises \<open>OSError\<close>: \<open>pathlib\<close> (Python 3.11) passes the error of the system
  call on unless it says that the file is missing, so it does for a name that is too
  long and for a directory that may not be searched.

  \<open>Path(repo_path) / file\<close> is the file itself when it is absolute; the clean-up of
  redundant separators that \<open>pathlib\<close> does is left out.
\<close>

record file_entry =
  contents :: string
  readable :: bool
  writable :: bool

datatype path_state = Missing | Unreachable | Present file_entry

type_synonym filesystem = "string \<Rightarrow> path_state"

definition path_join :: "string \<Rightarrow> string \<Rightarrow> string" where
  "path_join repo_path file = (if startswith file ''/'' then file else repo_path @ ''/'' @ file)"

text \<open>
  \<open>ast.parse\<close> belongs to the Python library and is a parameter of the model. It
  accepts the text, raises \<open>SyntaxError\<close>, or raises something else, which
  \<open>except SyntaxError\<close> does not catch.
\<close>

datatype parse_result = ParseOk | ParseSyntaxError | ParseOtherError

text \<open>
  \<open>FixAgent.apply_fix\<close>, with the file system passed in and returned. The call of
  \<open>exists()\<close> stands outside every \<open>try\<close>, so its exception leaves the function.
  The context lines around the error are only written to the log.
\<close>

definition apply_fix ::
  "(string \<Rightarrow> string) \<Rightarrow> (string \<Rightarrow> parse_result) \<Rightarrow> filesystem \<Rightarrow> string \<Rightarrow> string \<Rightarrow> int
     \<Rightarrow> BugType \<Rightarrow> string \<Rightarrow> string \<Rightarrow> (error + bool) \<times> filesystem"
where
  "apply_fix lower ast_parse fs repo_path file line_number bug_type message error_type =
     (let file_path = path_join repo_path file
      in case fs file_path of
           Unreachable \<Rightarrow> (Inl OSError, fs)
         | Missing \<Rightarrow> (Inr False, fs)
         | Present entry \<Rightarrow>
             if \<not> readable entry then (Inr False, fs)
             else
               (let original_content = contents entry;
                    original_lines = splitlines False original_content
                in if line_number < 1 \<or> line_number > int (length original_lines)
                   then (Inr False, fs)
                   else
                     (let fixed_content =
                            generate_fixed_content lower original_content file line_number
                              bug_type error_type message
                      in if fixed_content = [] \<or> fixed_content = original_content
                         then (Inr False, fs)
                         else
                           (case ast_parse fixed_content of
                              ParseSyntaxError \<Rightarrow> (Inr False, fs)
                            | ParseOtherError \<Rightarrow> (Inl UncaughtParserError, fs)
                            | ParseOk \<Rightarrow>
                                if writable entry
                                then (Inr True,
                                      fs(file_path :=
                                           Present (entry\<lparr>contents := fixed_content\<rparr>)))
                                else (Inr False, fs)))))"


subsection \<open>An example repository\<close>

text \<open>
  One file with an unfinished \<open>def\<close> line and an over-indented \<open>return\<close>, and a
  stand-in for \<open>ast.parse\<close> that rejects a text with the line \<open>def f(:\<close>. They
  serve to run the model on concrete inputs.
\<close>

definition example_fs :: filesystem where
  "example_fs = (\<lambda>path. Missing)(''/repo/calc.py'' :=
     Present \<lparr>contents = ''def f('' @ [LF] @ ''    x = 1'' @ [LF] @ ''      return x'' @ [LF],
              readable = True, writable = True\<rparr>)"

definition example_ast_parse :: "string \<Rightarrow> parse_result" where
  "example_ast_parse s = (if str_in ''def f(:'' s then ParseSyntaxError else ParseOk)"

section \<open>Failure extraction: \<open>test_agent.py\<close>\<close>

record TestFailure =
  tf_file :: string
  tf_line_number :: int
  tf_message :: string
  tf_error_type :: string
  tf_full_traceback :: string

record TestRunResult =
  tr_passed :: bool
  tr_failures :: "TestFailure list"

text \<open>\<open>output.split('\n')\<close> and \<open>'\n'.join(lines)\<close>.\<close>

fun split_lf :: "string \<Rightarrow> string list" where
  "split_lf [] = [[]]"
| "split_lf (c # cs) =
     (if c = LF then [] # split_lf cs
      else (case split_lf cs of [] \<Rightarrow> [[c]] | l # ls \<Rightarrow> (c # l) # ls))"

fun join_lf :: "string list \<Rightarrow> string" where
  "join_lf [] = []"
| "join_lf [l] = l"
| "join_lf (l # m # ls) = l @ [LF] @ join_lf (m # ls)"

text \<open>\<open>TestAgent._normalize_file_path\<close>.\<close>

definition normalize_file_path :: "string \<Rightarrow> string \<Rightarrow> string" where
  "normalize_file_path file_path repo_path =
     (let p1 = (if startswith file_path repo_path
                then lstrip_chars ''/'' (drop (length repo_path) file_path) else file_path);
          p2 = (if startswith p1 ''/workspace/'' then drop (length ''/workspace/'') p1 else p1)
      in if startswith p2 ''./'' then drop 2 p2 else p2)"

subsection \<open>The patterns\<close>

text \<open>
  The patterns are applied to one line at a time, and a line holds no line feed, so
  \<open>^\<close> is the start of the line, \<open>$\<close> its end and \<open>.\<close> any character. Every
  capture group below is a run of one character class followed by a character outside
  the class, so the group is the longest run.

  \<open>\s*(.+)\<close> up to the end of the line: the spaces are skipped and the rest is the
  group; when nothing but spaces is left, the last of them is given back to the group.
\<close>

abbreviation dquote :: char where
  "dquote \<equiv> CHR 0x22"

abbreviation backslash :: char where
  "backslash \<equiv> CHR 0x5C"

definition spaces_then_rest :: "string \<Rightarrow> string option" where
  "spaces_then_rest s =
     (if s = [] then None
      else if dropWhile is_space s = [] then Some [last s]
      else Some (dropWhile is_space s))"

definition error_suffixes :: "string list" where
  "error_suffixes = [''Error'', ''Exception'', ''Failure'']"

text \<open>Pattern 1, at one position: \<open>File "([^"]+)", line (\d+)\<close>.\<close>

definition traceback_pattern_at :: "string \<Rightarrow> (string \<times> string) option" where
  "traceback_pattern_at s =
     do {
       r1 \<leftarrow> lit (''File '' @ [dquote]) s;
       (path, r2) \<leftarrow> many1 (\<lambda>c. c \<noteq> dquote) r1;
       r3 \<leftarrow> lit ([dquote] @ '', line '') r2;
       (num, r4) \<leftarrow> many1 is_digit r3;
       Some (path, num)
     }"

text \<open>Pattern 2: \<open>^([\w./\\-]+\.py):(\d+):\s+in\s+\w+\<close>.\<close>

definition is_path_char :: "char \<Rightarrow> bool" where
  "is_path_char c \<longleftrightarrow>
     is_word c \<or> c = CHR ''.'' \<or> c = CHR ''/'' \<or> c = backslash \<or> c = CHR ''-''"

definition pytest_location_pattern :: "string \<Rightarrow> (string \<times> string) option" where
  "pytest_location_pattern line =
     do {
       (path, r1) \<leftarrow> many1 is_path_char line;
       r2 \<leftarrow> (if endswith path ''.py'' \<and> length ''.py'' < length path
               then lit '':'' r1 else None);
       (num, r3) \<leftarrow> many1 is_digit r2;
       r4 \<leftarrow> lit '':'' r3;
       (sp1, r5) \<leftarrow> many1 is_space r4;
       r6 \<leftarrow> lit ''in'' r5;
       (sp2, r7) \<leftarrow> many1 is_space r6;
       (fn, r8) \<leftarrow> many1 is_word r7;
       Some (path, num)
     }"

text \<open>Pattern 3: \<open>^E\s+(\w+(?:Error|Exception|Failure)):\s*(.+)$\<close>.\<close>

definition pytest_error_pattern :: "string \<Rightarrow> (string \<times> string) option" where
  "pytest_error_pattern line =
     do {
       r1 \<leftarrow> lit ''E'' line;
       (sp, r2) \<leftarrow> many1 is_space r1;
       (etype, r3) \<leftarrow> many1 is_word r2;
       r4 \<leftarrow> (if list_ex (\<lambda>suffix. endswith etype suffix \<and> length suffix < length etype)
                     error_suffixes
               then lit '':'' r3 else None);
       msg \<leftarrow> spaces_then_rest r4;
       Some (etype, msg)
     }"

text \<open>Pattern 4: \<open>^(\w*(?:Error|Exception|Failure)):\s*(.+)\<close>.\<close>

definition error_type_pattern :: "string \<Rightarrow> (string \<times> string) option" where
  "error_type_pattern line =
     (let etype = takeWhile is_word line
      in do {
           r1 \<leftarrow> (if list_ex (\<lambda>suffix. endswith etype suffix) error_suffixes
                   then lit '':'' (dropWhile is_word line) else None);
           msg \<leftarrow> spaces_then_rest r1;
           Some (etype, msg)
         })"

subsection \<open>The scan of \<open>_parse_pytest_output\<close>\<close>

text \<open>
  The locals of the loop that live from one line to the next. \<open>current_error_type\<close>
  and \<open>current_message\<close> are written just before they are read and reset right
  after, so they are not part of the state.
\<close>

record parse_state =
  current_file :: "string option"
  current_line :: "int option"
  current_traceback :: "string list"
  seen :: "(string \<times> int) set"
  failures :: "TestFailure list"

definition initial_parse_state :: parse_state where
  "initial_parse_state =
     \<lparr>current_file = None, current_line = None, current_traceback = [], seen = {},
      failures = []\<rparr>"

text \<open>The \<open>file:line: in function\<close> line.\<close>

definition location_step :: "string \<Rightarrow> string \<Rightarrow> parse_state \<Rightarrow> parse_state" where
  "location_step repo_path line st =
     (case pytest_location_pattern line of
        None \<Rightarrow> st
      | Some (path, num) \<Rightarrow>
          st\<lparr>current_file := Some (normalize_file_path path repo_path),
             current_line := Some (int_of_digits num),
             current_traceback := [line]\<rparr>)"

text \<open>
  The \<open>E   ErrorType: message\<close> line. The record is made when the pattern matches and
  \<open>current_file\<close> and \<open>current_line\<close> are true in Python's sense: not \<open>None\<close>, not
  the empty string, not zero. Otherwise the line joins the traceback, if one is open.
\<close>

definition accumulate :: "string \<Rightarrow> parse_state \<Rightarrow> parse_state" where
  "accumulate line st =
     (if current_traceback st \<noteq> []
      then st\<lparr>current_traceback := current_traceback st @ [line]\<rparr> else st)"

definition error_step :: "string \<Rightarrow> parse_state \<Rightarrow> parse_state" where
  "error_step line st =
     (case (pytest_error_pattern line, current_file st, current_line st) of
        (Some (etype, msg), Some file, Some line_number) \<Rightarrow>
          if file \<noteq> [] \<and> line_number \<noteq> 0 then
            (let traceback = current_traceback st @ [line];
                 key = (file, line_number);
                 st1 = (if key \<notin> seen st
                        then st\<lparr>seen := insert key (seen st),
                                failures := failures st @
                                  [\<lparr>tf_file = file, tf_line_number = line_number,
                                    tf_message = strip msg, tf_error_type = etype,
                                    tf_full_traceback = join_lf traceback\<rparr>]\<rparr>
                        else st)
             in st1\<lparr>current_file := None, current_line := None, current_traceback := []\<rparr>)
          else accumulate line st
      | _ \<Rightarrow> accumulate line st)"

text \<open>
  The \<open>File "path", line n\<close> line, with the look-ahead over the next four lines for
  the error type. \<open>look_ahead\<close> gives the error type, the message and the traceback
  text.
\<close>

fun look_ahead :: "string list \<Rightarrow> string \<Rightarrow> string \<times> string \<times> string" where
  "look_ahead [] full_traceback = (''UnknownError'', ''Test failure'', full_traceback)"
| "look_ahead (l # ls) full_traceback =
     (case error_type_pattern l of
        Some (etype, msg) \<Rightarrow> (etype, strip msg, full_traceback @ [LF] @ l)
      | None \<Rightarrow> look_ahead ls (full_traceback @ [LF] @ l))"

definition traceback_step ::
  "string \<Rightarrow> string \<Rightarrow> string list \<Rightarrow> parse_state \<Rightarrow> parse_state"
where
  "traceback_step repo_path line rest st =
     (case search traceback_pattern_at line of
        None \<Rightarrow> st
      | Some (path, num) \<Rightarrow>
          (let file_path = normalize_file_path path repo_path;
               line_number = int_of_digits num;
               (error_type, message, full_traceback) = look_ahead (take 4 rest) line;
               key = (file_path, line_number)
           in if key \<notin> seen st \<and> endswith file_path ''.py''
              then st\<lparr>seen := insert key (seen st),
                      failures := failures st @
                        [\<lparr>tf_file = file_path, tf_line_number = line_number,
                          tf_message = message, tf_error_type = error_type,
                          tf_full_traceback = strip full_traceback\<rparr>]\<rparr>
              else st))"

text \<open>The \<open>while\<close> loop over the lines; \<open>rest\<close> are the lines after the current one.\<close>

fun parse_lines :: "string \<Rightarrow> parse_state \<Rightarrow> string list \<Rightarrow> parse_state" where
  "parse_lines repo_path st [] = st"
| "parse_lines repo_path st (line # rest) =
     parse_lines repo_path
       (traceback_step repo_path line rest (error_step line (location_step repo_path line st)))
       rest"

definition parse_pytest_output :: "string \<Rightarrow> string \<Rightarrow> TestFailure list" where
  "parse_pytest_output output repo_path =
     failures (parse_lines repo_path initial_parse_state (split_lf output))"

definition failure_key :: "TestFailure \<Rightarrow> string \<times> int" where
  "failure_key f = (tf_file f, tf_line_number f)"

text \<open>
  The invariant of the scan: the records made so far have pairwise different keys, all
  of them in \<open>seen\<close>. A step \<open>extends\<close> a state when it only appends records and
  only adds keys.
\<close>

definition dedup_inv :: "parse_state \<Rightarrow> bool" where
  "dedup_inv st \<longleftrightarrow>
     distinct (map failure_key (failures st)) \<and> failure_key ` set (failures st) \<subseteq> seen st"

definition extends :: "parse_state \<Rightarrow> parse_state \<Rightarrow> bool" where
  "extends st st' \<longleftrightarrow> (\<exists>new. failures st' = failures st @ new) \<and> seen st \<subseteq> seen st'"

text \<open>
  A sample output with the two report styles for the same place, line 3 of \<open>t.py\<close>.
\<close>

definition example_output :: string where
  "example_output = join_lf
     [''t.py:3: in f'',
      ''E   NameError: name 'os' is not defined'',
      ''  File '' @ [dquote] @ ''/repo/t.py'' @ [dquote] @ '', line 3, in f'',
      ''NameError: name 'os' is not defined'']"

subsection \<open>Set-up errors: \<open>_parse_setup_error\<close>\<close>

text \<open>
  \<open>([\w./]+\.py):(\d+):\<close> and \<open>E\s+(\w+(?:Error|Exception)?)\s*:\s*(.+)\<close> at one
  position. The optional suffix of the second pattern is made of word characters, so
  group 1 is the whole run of word characters whether the suffix is there or not.
\<close>

definition is_setup_path_char :: "char \<Rightarrow> bool" where
  "is_setup_path_char c \<longleftrightarrow> is_word c \<or> c = CHR ''.'' \<or> c = CHR ''/''"

definition setup_location_at :: "string \<Rightarrow> (string \<times> string) option" where
  "setup_location_at s =
     do {
       (path, r1) \<leftarrow> many1 is_setup_path_char s;
       r2 \<leftarrow> (if endswith path ''.py'' \<and> length ''.py'' < length path
               then lit '':'' r1 else None);
       (num, r3) \<leftarrow> many1 is_digit r2;
       r4 \<leftarrow> lit '':'' r3;
       Some (path, num)
     }"

definition setup_error_at :: "string \<Rightarrow> (string \<times> string) option" where
  "setup_error_at s =
     do {
       r1 \<leftarrow> lit ''E'' s;
       (sp, r2) \<leftarrow> many1 is_space r1;
       (etype, r3) \<leftarrow> many1 is_word r2;
       r4 \<leftarrow> lit '':'' (dropWhile is_space r3);
       msg \<leftarrow> spaces_then_rest r4;
       Some (etype, msg)
     }"

record setup_state =
  se_file :: "string option"
  se_line :: int
  se_type :: string
  se_message :: string
  se_traceback :: string

definition initial_setup_state :: setup_state where
  "initial_setup_state =
     \<lparr>se_file = None, se_line = 1, se_type = ''ImportError'',
      se_message = ''Setup/configuration error'', se_traceback = []\<rparr>"

text \<open>The truth value of \<open>error_file\<close>: neither \<open>None\<close> nor the empty string.\<close>

definition truthy :: "string option \<Rightarrow> bool" where
  "truthy v = (case v of None \<Rightarrow> False | Some s \<Rightarrow> s \<noteq> [])"

definition setup_step :: "string \<Rightarrow> setup_state \<Rightarrow> string \<Rightarrow> setup_state" where
  "setup_step repo_path st line =
     (let st1 = (case search setup_location_at line of
                   None \<Rightarrow> st
                 | Some (path, num) \<Rightarrow>
                     if \<not> truthy (se_file st)
                     then st\<lparr>se_file := Some (normalize_file_path path repo_path),
                             se_line := int_of_digits num\<rparr>
                     else st);
          e_line = startswith (strip line) ''E   '';
          st2 = (if e_line then
                   (case search setup_error_at line of
                      None \<Rightarrow> st1
                    | Some (etype, msg) \<Rightarrow> st1\<lparr>se_type := etype, se_message := strip msg\<rparr>)
                 else st1)
      in if truthy (se_file st2) \<or> e_line
         then st2\<lparr>se_traceback := se_traceback st2 @ line @ [LF]\<rparr> else st2)"

definition parse_setup_error :: "string \<Rightarrow> string \<Rightarrow> TestFailure option" where
  "parse_setup_error output repo_path =
     (let st = foldl (setup_step repo_path) initial_setup_state (split_lf output)
      in case se_file st of
           None \<Rightarrow> None
         | Some file \<Rightarrow>
             if file = [] then None
             else Some \<lparr>tf_file = file, tf_line_number = se_line st,
                        tf_message = se_message st, tf_error_type = se_type st,
                        tf_full_traceback = strip (se_traceback st)\<rparr>)"

subsection \<open>\<open>TestAgent.run_tests\<close>\<close>

text \<open>
  The sandbox that runs pytest and the search for test files are outside the source
  at hand. Their results are parameters: the list of test files found, and what
  \<open>run_pytest\<close> gave, a finished process or an exception. The diagnostics at the head
  of \<open>run_tests\<close> only write to the log.
\<close>

record CompletedProcess =
  cp_returncode :: int
  cp_stdout :: string
  cp_stderr :: string

definition run_tests ::
  "string list \<Rightarrow> error + CompletedProcess \<Rightarrow> string \<Rightarrow> error + TestRunResult"
where
  "run_tests test_files run_pytest repo_path =
     (if test_files = [] then Inl NoTestFilesFound
      else
        (case run_pytest of
           Inl e \<Rightarrow> Inl e
         | Inr completed \<Rightarrow>
             (let combined_output = cp_stdout completed @ [LF] @ cp_stderr completed
              in if cp_returncode completed = 0
                 then Inr \<lparr>tr_passed = True, tr_failures = []\<rparr>
                 else
                   (case (if cp_returncode completed = 4
                          then parse_setup_error combined_output repo_path else None) of
                      Some setup_failure \<Rightarrow>
                        Inr \<lparr>tr_passed = False, tr_failures = [setup_failure]\<rparr>
                    | None \<Rightarrow>
                        (let found = parse_pytest_output combined_output repo_path
                         in if found = [] then Inl NoStructuredFailures
                            else Inr \<lparr>tr_passed = False, tr_failures = found\<rparr>)))))"


section \<open>The healing loop: \<open>orchestrator.py\<close>\<close>

datatype RunStatus = RUNNING | PASSED | FAILED

datatype FixStatus = FixStatus_FIXED | FixStatus_FAILED

record FixRecord =
  fr_file :: string
  fr_bug_type :: BugType
  fr_line_number :: int
  fr_commit_message :: string
  fr_status :: FixStatus
  fr_strict_output :: string

record CITimelineRecord =
  ct_iteration :: nat
  ct_status :: RunStatus
  ct_timestamp :: string

text \<open>\<open>RunState\<close> with the fields of its \<open>ResultsSchema\<close> that the loop writes.\<close>

record RunState =
  rs_status :: RunStatus
  rs_branch_name :: string
  rs_total_failures :: nat
  rs_total_fixes :: nat
  rs_iterations_used :: nat
  rs_commits :: nat
  rs_final_status :: RunStatus
  rs_execution_time_seconds :: int
  rs_score :: int
  rs_score_base :: int
  rs_score_time_bonus :: int
  rs_score_commit_penalty :: int
  rs_fixes :: "FixRecord list"
  rs_ci_timeline :: "CITimelineRecord list"

text \<open>The state of a run as \<open>start_run\<close> stores it.\<close>

definition initial_run_state :: "string \<Rightarrow> RunState" where
  "initial_run_state branch =
     \<lparr>rs_status = RUNNING, rs_branch_name = branch, rs_total_failures = 0,
      rs_total_fixes = 0, rs_iterations_used = 0, rs_commits = 0, rs_final_status = RUNNING,
      rs_execution_time_seconds = 0, rs_score = 0, rs_score_base = 100,
      rs_score_time_bonus = 0, rs_score_commit_penalty = 0, rs_fixes = [],
      rs_ci_timeline = []\<rparr>"

record CIStatus =
  ci_status :: string
  ci_timestamp :: string
  ci_details :: string

text \<open>
  What the collaborators answer during one run: cloning and the branch check-out, and
  at each iteration the test files found, the pytest run, the commit (whether there
  was something to commit) and the push followed by the CI poll. Each may raise. The
  clock gives the time stamp of an iteration and the seconds the run took. The two
  library functions that the loop reaches, \<open>str.lower\<close> and \<open>ast.parse\<close>, are
  carried along.
\<close>

record world =
  w_analyze_repository :: "error + string"
  w_checkout_or_create_branch :: "error + string"
  w_test_files :: "nat \<Rightarrow> string list"
  w_run_pytest :: "nat \<Rightarrow> error + CompletedProcess"
  w_lower :: "string \<Rightarrow> string"
  w_ast_parse :: "string \<Rightarrow> parse_result"
  w_commit_all_changes :: "nat \<Rightarrow> error + bool"
  w_push_and_monitor_ci :: "nat \<Rightarrow> error + CIStatus"
  w_now :: "nat \<Rightarrow> string"
  w_elapsed_seconds :: int

definition COMMIT_PREFIX :: string where
  "COMMIT_PREFIX = ''[AI-AGENT]''"

definition validate_commit_prefix :: "string \<Rightarrow> bool" where
  "validate_commit_prefix commit_message = startswith commit_message COMMIT_PREFIX"

definition enforce_commit_prefix :: "string \<Rightarrow> error + unit" where
  "enforce_commit_prefix commit_message =
     (if \<not> validate_commit_prefix commit_message then Inl InvalidCommitPrefix else Inr ())"

text \<open>
  A loop that can raise gives \<open>error option \<times> state\<close>: the exception, if any, and the
  state at that moment, since what was written before the exception stays written.

  The body of \<open>for failure in test_result.failures\<close>. The state is the run, the files
  and the counter \<open>fixes_applied\<close>.
\<close>

definition process_failure ::
  "world \<Rightarrow> string \<Rightarrow> TestFailure \<Rightarrow> RunState \<times> filesystem \<times> nat
     \<Rightarrow> error option \<times> RunState \<times> filesystem \<times> nat"
where
  "process_failure w repo_path failure s =
     (case s of (run_state, fs, fixes_applied) \<Rightarrow>
        (let bug_type = classify_bug_type (w_lower w) (tf_error_type failure)
                          (tf_message failure)
         in case apply_fix (w_lower w) (w_ast_parse w) fs repo_path (tf_file failure)
                   (tf_line_number failure) bug_type (tf_message failure)
                   (tf_error_type failure) of
              (Inl e, fs1) \<Rightarrow> (Some e, run_state, fs1, fixes_applied)
            | (Inr fix_applied, fs1) \<Rightarrow>
                (case generate_fix (tf_file failure) (tf_line_number failure)
                        (Member bug_type) (tf_message failure) of
                   Inl e \<Rightarrow> (Some e, run_state, fs1, fixes_applied)
                 | Inr proposal \<Rightarrow>
                     (case enforce_commit_prefix (fp_commit_message proposal) of
                        Inl e \<Rightarrow> (Some e, run_state, fs1, fixes_applied)
                      | Inr u \<Rightarrow>
                          (None,
                           run_state\<lparr>rs_fixes := rs_fixes run_state @
                             [\<lparr>fr_file = fp_file proposal,
                               fr_bug_type = fp_bug_type proposal,
                               fr_line_number = fp_line_number proposal,
                               fr_commit_message = fp_commit_message proposal,
                               fr_status = (if fix_applied then FixStatus_FIXED
                                            else FixStatus_FAILED),
                               fr_strict_output = fp_strict_output proposal\<rparr>]\<rparr>,
                           fs1,
                           (if fix_applied then fixes_applied + 1 else fixes_applied))))))"

fun process_failures ::
  "world \<Rightarrow> string \<Rightarrow> TestFailure list \<Rightarrow> RunState \<times> filesystem \<times> nat
     \<Rightarrow> error option \<times> RunState \<times> filesystem \<times> nat"
where
  "process_failures w repo_path [] s = (None, s)"
| "process_failures w repo_path (failure # rest) s =
     (case process_failure w repo_path failure s of
        (Some e, s1) \<Rightarrow> (Some e, s1)
      | (None, s1) \<Rightarrow> process_failures w repo_path rest s1)"

text \<open>How one pass of the \<open>for iteration\<close> loop ends.\<close>

datatype loop_exit = Continue | Break | Raise error

definition ci_record :: "nat \<Rightarrow> CIStatus \<Rightarrow> CITimelineRecord" where
  "ci_record iteration ci =
     \<lparr>ct_iteration = iteration,
      ct_status = (if ci_status ci = ''PASSED'' then PASSED else FAILED),
      ct_timestamp = ci_timestamp ci\<rparr>"

definition mark_passed :: "RunState \<Rightarrow> RunState" where
  "mark_passed run_state = run_state\<lparr>rs_status := PASSED, rs_final_status := PASSED\<rparr>"

text \<open>The branch of the loop body for tests that passed.\<close>

definition tests_passed_branch ::
  "world \<Rightarrow> string \<Rightarrow> nat \<Rightarrow> RunState \<Rightarrow> loop_exit \<times> RunState"
where
  "tests_passed_branch w repo_url iteration run_state =
     (if startswith repo_url ''file://'' then
        (Break,
         (mark_passed run_state)\<lparr>rs_ci_timeline := rs_ci_timeline run_state @
            [\<lparr>ct_iteration = iteration, ct_status = PASSED,
              ct_timestamp = w_now w iteration\<rparr>]\<rparr>)
      else
        (case w_push_and_monitor_ci w iteration of
           Inl e \<Rightarrow> (Raise e, run_state)
         | Inr ci \<Rightarrow>
             (let rs1 = run_state\<lparr>rs_ci_timeline := rs_ci_timeline run_state
                                      @ [ci_record iteration ci]\<rparr>
              in if ci_status ci = ''PASSED'' then (Break, mark_passed rs1)
                 else (Continue, rs1))))"

text \<open>The branch for tests that failed: fix, commit, push, poll.\<close>

definition tests_failed_branch ::
  "world \<Rightarrow> string \<Rightarrow> nat \<Rightarrow> TestFailure list \<Rightarrow> RunState \<times> filesystem
     \<Rightarrow> loop_exit \<times> RunState \<times> filesystem"
where
  "tests_failed_branch w repo_path iteration found s =
     (case s of (run_state, fs) \<Rightarrow>
        (let rs1 = run_state\<lparr>rs_total_failures := rs_total_failures run_state + length found\<rparr>
         in case process_failures w repo_path found (rs1, fs, 0) of
              (Some e, rs2, fs2, fixes_applied) \<Rightarrow> (Raise e, rs2, fs2)
            | (None, rs2, fs2, fixes_applied) \<Rightarrow>
                (case (if fixes_applied > 0 then
                         (case enforce_commit_prefix
                                 (''[AI-AGENT] Apply '' @ str_of_int (int fixes_applied)
                                  @ '' autonomous fix(es)'') of
                            Inl e \<Rightarrow> Inl e
                          | Inr u \<Rightarrow> w_commit_all_changes w iteration)
                       else Inr False) of
                   Inl e \<Rightarrow> (Raise e, rs2, fs2)
                 | Inr committed \<Rightarrow>
                     (let rs3 = (if committed then rs2\<lparr>rs_commits := rs_commits rs2 + 1\<rparr>
                                 else rs2)
                      in case w_push_and_monitor_ci w iteration of
                           Inl e \<Rightarrow> (Raise e, rs3, fs2)
                         | Inr ci \<Rightarrow>
                             (let rs4 = rs3\<lparr>rs_total_fixes := length (rs_fixes rs3),
                                            rs_ci_timeline := rs_ci_timeline rs3
                                               @ [ci_record iteration ci]\<rparr>
                              in if ci_status ci = ''PASSED''
                                 then (Break, mark_passed rs4, fs2)
                                 else (Continue, rs4, fs2))))))"

text \<open>One pass of the loop body.\<close>

definition iteration_body ::
  "world \<Rightarrow> string \<Rightarrow> string \<Rightarrow> nat \<Rightarrow> RunState \<times> filesystem
     \<Rightarrow> loop_exit \<times> RunState \<times> filesystem"
where
  "iteration_body w repo_path repo_url iteration s =
     (case s of (run_state, fs) \<Rightarrow>
        (let rs1 = run_state\<lparr>rs_iterations_used := iteration\<rparr>
         in case run_tests (w_test_files w iteration) (w_run_pytest w iteration) repo_path of
              Inl e \<Rightarrow> (Raise e, rs1, fs)
            | Inr test_result \<Rightarrow>
                if tr_passed test_result then
                  (case tests_passed_branch w repo_url iteration rs1 of
                     (exit, rs2) \<Rightarrow> (exit, rs2, fs))
                else tests_failed_branch w repo_path iteration (tr_failures test_result)
                       (rs1, fs)))"

text \<open>
  \<open>for iteration in range(1, retry_limit + 1)\<close>: \<open>remaining\<close> passes are left and
  the next one has the number \<open>iteration\<close>.
\<close>

fun run_iterations ::
  "world \<Rightarrow> string \<Rightarrow> string \<Rightarrow> nat \<Rightarrow> nat \<Rightarrow> RunState \<times> filesystem
     \<Rightarrow> error option \<times> RunState \<times> filesystem"
where
  "run_iterations w repo_path repo_url 0 iteration s = (None, s)"
| "run_iterations w repo_path repo_url (Suc remaining) iteration s =
     (case iteration_body w repo_path repo_url iteration s of
        (Raise e, s1) \<Rightarrow> (Some e, s1)
      | (Break, s1) \<Rightarrow> (None, s1)
      | (Continue, s1) \<Rightarrow> run_iterations w repo_path repo_url remaining (Suc iteration) s1)"

text \<open>The \<open>try\<close> block of \<open>execute_run\<close>.\<close>

definition try_block ::
  "world \<Rightarrow> nat \<Rightarrow> string \<Rightarrow> RunState \<times> filesystem \<Rightarrow> error option \<times> RunState \<times> filesystem"
where
  "try_block w retry_limit repo_url s =
     (case s of (run_state, fs) \<Rightarrow>
        (case w_analyze_repository w of
           Inl e \<Rightarrow> (Some e, run_state, fs)
         | Inr repo_path \<Rightarrow>
             (case w_checkout_or_create_branch w of
                Inl e \<Rightarrow> (Some e, run_state, fs)
              | Inr active_branch \<Rightarrow>
                  run_iterations w repo_path repo_url retry_limit 1
                    (run_state\<lparr>rs_branch_name := active_branch, rs_iterations_used := 0\<rparr>,
                     fs))))"

text \<open>
  What follows the loop: the status after a loop that ended without exception, the
  \<open>except\<close> clause, and the \<open>finally\<close> clause with the score.
\<close>

definition mark_failed :: "RunState \<Rightarrow> RunState" where
  "mark_failed run_state = run_state\<lparr>rs_status := FAILED, rs_final_status := FAILED\<rparr>"

definition finalize :: "world \<Rightarrow> error option \<times> RunState \<times> filesystem \<Rightarrow> RunState \<times> filesystem"
where
  "finalize w outcome =
     (case outcome of (raised, run_state, fs) \<Rightarrow>
        (let rs1 = (case raised of
                      Some e \<Rightarrow> mark_failed run_state
                    | None \<Rightarrow> if rs_status run_state \<noteq> PASSED then mark_failed run_state
                              else run_state);
             score_breakdown = calculate_score (w_elapsed_seconds w) (int (rs_commits rs1))
         in (rs1\<lparr>rs_total_fixes := length (rs_fixes rs1),
                 rs_execution_time_seconds := w_elapsed_seconds w,
                 rs_score_base := base_score score_breakdown,
                 rs_score_time_bonus := time_bonus score_breakdown,
                 rs_score_commit_penalty := commit_penalty score_breakdown,
                 rs_score := final_score score_breakdown\<rparr>,
             fs)))"

definition execute_run ::
  "world \<Rightarrow> nat \<Rightarrow> string \<Rightarrow> RunState \<times> filesystem \<Rightarrow> RunState \<times> filesystem"
where
  "execute_run w retry_limit repo_url s = finalize w (try_block w retry_limit repo_url s)"

text \<open>The number of fix records whose status is \<open>FIXED\<close>.\<close>

definition count_fixed :: "FixRecord list \<Rightarrow> nat" where
  "count_fixed records = length (filter (\<lambda>r. fr_status r = FixStatus_FIXED) records)"

subsection \<open>Example runs\<close>

text \<open>
  A run whose test \<open>app.py\<close> line 1 fails with an undefined name \<open>os\<close>, on a
  repository that is not hosted on GitHub, so that the CI poll answers \<open>FAILED\<close>. In
  \<open>example_world\<close> pytest reports the failure; in \<open>garbled_world\<close> it exits with
  code 1 and prints nothing that the patterns recognise.
\<close>

definition example_world :: world where
  "example_world =
     \<lparr>w_analyze_repository = Inr ''/repo'',
      w_checkout_or_create_branch = Inr ''TEAM_LEAD_AI_Fix'',
      w_test_files = (\<lambda>i. [''/repo/test_app.py'']),
      w_run_pytest = (\<lambda>i. Inr \<lparr>cp_returncode = 1,
                                cp_stdout = join_lf [''app.py:1: in test_cwd'',
                                                     ''E   NameError: name 'os' is not defined''],
                                cp_stderr = []\<rparr>),
      w_lower = ascii_lower,
      w_ast_parse = (\<lambda>s. ParseOk),
      w_commit_all_changes = (\<lambda>i. Inr True),
      w_push_and_monitor_ci = (\<lambda>i. Inr \<lparr>ci_status = ''FAILED'', ci_timestamp = ''t1'',
                                         ci_details = ''Invalid GitHub repository URL''\<rparr>),
      w_now = (\<lambda>i. ''t0''),
      w_elapsed_seconds = 12\<rparr>"

definition garbled_world :: world where
  "garbled_world =
     example_world\<lparr>w_run_pytest := (\<lambda>i. Inr \<lparr>cp_returncode = 1,
                                               cp_stdout = ''no tests ran'',
                                               cp_stderr = []\<rparr>)\<rparr>"

definition app_fs :: filesystem where
  "app_fs = (\<lambda>path. Missing)(''/repo/app.py'' :=
     Present \<lparr>contents = ''print(os.getcwd())'' @ [LF], readable = True, writable = True\<rparr>)"

definition empty_fs :: filesystem where
  "empty_fs = (\<lambda>path. Missing)"

text \<open>
  A repository without files, where a test reports a file whose name has 303
  characters, more than a file name may have, so that \<open>exists()\<close> raises on it.
\<close>

definition long_name :: string where
  "long_name = replicate 300 CHR ''a'' @ ''.py''"

definition long_name_fs :: filesystem where
  "long_name_fs = (\<lambda>path. if 255 < length path then Unreachable else Missing)"

text \<open>The failure that pytest reports in \<open>example_world\<close>.\<close>

definition example_failure :: TestFailure where
  "example_failure =
     \<lparr>tf_file = ''app.py'', tf_line_number = 1, tf_message = ''name 'os' is not defined'',
      tf_error_type = ''NameError'',
      tf_full_traceback = join_lf [''app.py:1: in test_cwd'', ''app.py:1: in test_cwd'',
                                   ''E   NameError: name 'os' is not defined'']\<rparr>"

section \<open>Properties\<close>

subsection \<open>Characters and strings\<close>

lemmas char_class_defs =
  is_ascii_upper_def is_ascii_lower_def is_digit_def lower_char_def upper_char_def

subsection \<open>Scoring\<close>

text \<open>
  Claim C5. The score is a function of the elapsed seconds and the number of commits
  alone: the base is 100, the time bonus is 10 exactly below 300 seconds, the commit
  penalty is twice the commits beyond 20, and the final score is the sum floored at 0.
  The three sample values of the specification are 110, 90 and 110.
\<close>

theorem calculate_score_spec:
  "base_score (calculate_score t c) = 100
   \<and> time_bonus (calculate_score t c) = (if t < 300 then 10 else 0)
   \<and> commit_penalty (calculate_score t c) = (if c > 20 then 2 * (c - 20) else 0)
   \<and> final_score (calculate_score t c)
       = max 0 (base_score (calculate_score t c) + time_bonus (calculate_score t c)
                - commit_penalty (calculate_score t c))
   \<and> final_score (calculate_score 299 5) = 110
   \<and> final_score (calculate_score 400 25) = 90
   \<and> final_score (calculate_score 10 0) = 110"
  by (simp add: calculate_score_def Let_def max_def)


subsection \<open>Branch names\<close>

lemma set_sub_underscores: "set (sub_underscores s) \<subseteq> set s"
proof (induction s rule: sub_underscores.induct)
  case 1
  then show ?case by simp
next
  case (2 c cs)
  have "set (dropWhile (\<lambda>d. d = CHR ''_'') cs) \<subseteq> set cs"
    by (auto dest: set_dropWhileD)
  with 2 show ?case by auto
qed

lemma set_strip_chars: "set (strip_chars chars s) \<subseteq> set s"
  unfolding strip_chars_def rstrip_chars_def lstrip_chars_def
  by (auto dest!: set_dropWhileD)

lemma normalize_name_class: "list_all is_upper_or_underscore (normalize_name upper v)"
proof -
  have "set (normalize_name upper v)
          \<subseteq> set (sub_non_upper (replace_char CHR '' '' CHR ''_'' (upper v)))"
    unfolding normalize_name_def Let_def
    using set_strip_chars set_sub_underscores by blast
  then show ?thesis
    by (auto simp: list_all_iff sub_non_upper_def)
qed

lemma endswith_append: "endswith (s @ p) p"
  unfolding endswith_def
  by (induction p rule: rev_induct) simp_all

text \<open>
  Claim C9. Whatever the team and leader names are, and whatever \<open>upper()\<close> makes of
  them, the branch name built from them passes \<open>validate_branch_name\<close>. A component
  may normalise to the empty string: for the names \<open>42\<close> and \<open>!?\<close> the branch is
  \<open>__AI_Fix\<close>, which is covered as well.
\<close>

theorem build_branch_name_valid:
  "validate_branch_name (build_branch_name upper team_name leader_name)
   \<and> build_branch_name ascii_upper ''42'' ''!?'' = ''__AI_Fix''"
proof -
  let ?p = "normalize_name upper team_name @ ''_'' @ normalize_name upper leader_name"
  have b: "build_branch_name upper team_name leader_name = ?p @ ''_AI_Fix''"
    by (simp add: build_branch_name_def)
  have cls: "list_all is_upper_or_underscore ?p"
    using normalize_name_class [of upper team_name] normalize_name_class [of upper leader_name]
    by (simp add: is_upper_or_underscore_def)
  have "BRANCH_PATTERN_fullmatch (?p @ ''_AI_Fix'')"
    unfolding BRANCH_PATTERN_fullmatch_def Let_def using cls by simp
  moreover have "endswith (?p @ ''_AI_Fix'') ''_AI_Fix''"
    by (rule endswith_append)
  moreover have "build_branch_name ascii_upper ''42'' ''!?'' = ''__AI_Fix''"
    by (simp add: build_branch_name_def normalize_name_def ascii_upper_def char_class_defs
        replace_char_def sub_non_upper_def is_upper_or_underscore_def strip_chars_def
        rstrip_chars_def lstrip_chars_def)
  ultimately show ?thesis
    unfolding validate_branch_name_def b by simp
qed

subsection \<open>Bug classification\<close>

lemma if_merge: "(if a then x else if b then x else y) = (if a \<or> b then x else y)"
  by simp

lemmas rule_defs =
  rule_import_def rule_syntax_def rule_indentation_def rule_type_error_def rule_linting_def

lemma classify_bug_type_first_match:
  "classify_bug_type lower e m = first_match (priority_rules lower) LOGIC e m"
  unfolding classify_bug_type_def priority_rules_def rule_defs contains_ci_def Let_def
    first_match.simps if_merge disj_assoc
  by (rule refl)

lemma first_match_fallback:
  "first_match (priority_rules lower) LOGIC e m = LOGIC
     \<longleftrightarrow> \<not> (rule_import lower e m \<or> rule_syntax lower e m \<or> rule_indentation lower e m
            \<or> rule_type_error lower e m \<or> rule_linting lower e m)"
  by (simp add: priority_rules_def)

lemma classify_bug_type_case_insensitive:
  "lower e' = lower e \<Longrightarrow> lower m' = lower m
     \<Longrightarrow> classify_bug_type lower e' m' = classify_bug_type lower e m"
  unfolding classify_bug_type_def by (simp only:)

text \<open>
  Claim C1. The classifier is a total function of the error type and the message. It
  is the first of the five rules of the specification that matches, in the order
  IMPORT, SYNTAX, INDENTATION, TYPE_ERROR, LINTING, and it answers LOGIC exactly when
  no rule matches. The keyword tests read the two texts only through \<open>lower()\<close>: two
  inputs that \<open>lower()\<close> makes equal are classified alike. All of this holds
  whatever function \<open>lower()\<close> is.
\<close>

theorem classify_bug_type_total_priority:
  "classify_bug_type lower e m = first_match (priority_rules lower) LOGIC e m
   \<and> (classify_bug_type lower e m = LOGIC
        \<longleftrightarrow> \<not> (rule_import lower e m \<or> rule_syntax lower e m \<or> rule_indentation lower e m
               \<or> rule_type_error lower e m \<or> rule_linting lower e m))
   \<and> (lower e' = lower e \<and> lower m' = lower m
        \<longrightarrow> classify_bug_type lower e' m' = classify_bug_type lower e m)"
  using classify_bug_type_first_match [of lower e m] first_match_fallback [of lower e m]
    classify_bug_type_case_insensitive [of lower e' e m' m]
  by simp

text \<open>
  The order of the rules at work, on ASCII texts: a message that matches the import
  rule wins over a syntax error type, a syntax message over an indentation error type,
  and so on down to the default. The error type and message in capitals are classified
  as they are in mixed case.
\<close>

theorem classify_bug_type_total_priority_witness:
  "classify_bug_type ascii_lower ''NameError'' ''name 'os' is not defined'' = IMPORT
   \<and> classify_bug_type ascii_lower ''NAMEERROR'' ''NAME 'OS' IS NOT DEFINED'' = IMPORT
   \<and> classify_bug_type ascii_lower ''SyntaxError'' ''cannot import: invalid syntax'' = IMPORT
   \<and> classify_bug_type ascii_lower ''IndentationError'' ''invalid SYNTAX'' = SYNTAX
   \<and> classify_bug_type ascii_lower ''TypeError'' ''unexpected indent'' = INDENTATION
   \<and> classify_bug_type ascii_lower ''ValueError'' ''expected type int, flake8'' = TYPE_ERROR
   \<and> classify_bug_type ascii_lower ''E501'' ''Flake8: line too long'' = LINTING
   \<and> classify_bug_type ascii_lower ''AssertionError'' ''assert 4 == 5'' = LOGIC
   \<and> \<not> (rule_import ascii_lower ''AssertionError'' ''assert 4 == 5''
          \<or> rule_syntax ascii_lower ''AssertionError'' ''assert 4 == 5''
          \<or> rule_indentation ascii_lower ''AssertionError'' ''assert 4 == 5''
          \<or> rule_type_error ascii_lower ''AssertionError'' ''assert 4 == 5''
          \<or> rule_linting ascii_lower ''AssertionError'' ''assert 4 == 5'')"
proof -
  have l: "classify_bug_type ascii_lower ''AssertionError'' ''assert 4 == 5'' = LOGIC"
    by (simp add: classify_bug_type_def ascii_lower_def char_class_defs)
  have e: "ascii_lower ''NAMEERROR'' = ascii_lower ''NameError''"
    and m: "ascii_lower ''NAME 'OS' IS NOT DEFINED'' = ascii_lower ''name 'os' is not defined''"
    by (simp_all add: ascii_lower_def char_class_defs)
  have i: "classify_bug_type ascii_lower ''NameError'' ''name 'os' is not defined'' = IMPORT"
    by (simp add: classify_bug_type_def ascii_lower_def char_class_defs)
  from l classify_bug_type_total_priority [of ascii_lower "''AssertionError''" "''assert 4 == 5''"]
  have n: "\<not> (rule_import ascii_lower ''AssertionError'' ''assert 4 == 5''
          \<or> rule_syntax ascii_lower ''AssertionError'' ''assert 4 == 5''
          \<or> rule_indentation ascii_lower ''AssertionError'' ''assert 4 == 5''
          \<or> rule_type_error ascii_lower ''AssertionError'' ''assert 4 == 5''
          \<or> rule_linting ascii_lower ''AssertionError'' ''assert 4 == 5'')"
    by blast
  from e m i
    classify_bug_type_total_priority [of ascii_lower "''NameError''"
      "''name 'os' is not defined''" "''NAMEERROR''" "''NAME 'OS' IS NOT DEFINED''"]
  have u: "classify_bug_type ascii_lower ''NAMEERROR'' ''NAME 'OS' IS NOT DEFINED'' = IMPORT"
    by simp
  from n u show ?thesis
    by (simp add: classify_bug_type_def ascii_lower_def char_class_defs)
qed

subsection \<open>The fix descriptor\<close>

lemmas regex_defs = lit_def many1_def optional_def












subsection \<open>Heuristic transformations and fix application\<close>

lemmas heuristics_defs =
  generate_fixed_content_def generate_fix_with_heuristics_def import_block_def
  syntax_block_def indentation_block_def compound_keywords_def splitlines_def linebreak_def
  strip_def lstrip_def rstrip_def endswith_def count_char_def ascii_lower_def
  char_class_defs is_space_def






lemma apply_fix_missing:
  "fs (path_join repo fname) = Missing
     \<Longrightarrow> apply_fix lower ast_parse fs repo fname n b m e = (Inr False, fs)"
  by (simp add: apply_fix_def)

lemma apply_fix_unreachable:
  "fs (path_join repo fname) = Unreachable
     \<Longrightarrow> apply_fix lower ast_parse fs repo fname n b m e = (Inl OSError, fs)"
  by (simp add: apply_fix_def)

lemma apply_fix_out_of_range:
  "fs (path_join repo fname) = Present entry
     \<Longrightarrow> n < 1 \<or> n > int (length (splitlines False (contents entry)))
     \<Longrightarrow> apply_fix lower ast_parse fs repo fname n b m e = (Inr False, fs)"
  by (simp add: apply_fix_def Let_def)





lemma long_name_unreachable: "long_name_fs (path_join repo long_name) = Unreachable"
  by (simp add: long_name_fs_def path_join_def long_name_def)

text \<open>
  Claim C10. A line number below 1 or above the number of lines of the file makes
  \<open>apply_fix\<close> return \<open>False\<close> with the files as they were, and so does a target
  of which \<open>exists()\<close> says that it is missing. But \<open>exists()\<close> is called outside
  every \<open>try\<close>: for a target that does not exist and whose name has 303 characters,
  in a repository with no file at all, the call raises \<open>OSError\<close> and \<open>apply_fix\<close>
  returns nothing. The reading and the writing of the file, next to it, catch every
  exception and return \<open>False\<close>.
\<close>

theorem apply_fix_exists_raises:
  "long_name_fs (path_join ''/repo'' long_name) = Unreachable
   \<and> apply_fix ascii_lower example_ast_parse long_name_fs ''/repo'' long_name 1 IMPORT
        ''name 'os' is not defined'' ''NameError'' = (Inl OSError, long_name_fs)
   \<and> apply_fix ascii_lower example_ast_parse example_fs ''/repo'' ''missing.py'' 1 SYNTAX
        ''invalid syntax'' ''SyntaxError'' = (Inr False, example_fs)
   \<and> apply_fix ascii_lower example_ast_parse example_fs ''/repo'' ''calc.py'' 0 INDENTATION
        ''unexpected indent'' ''IndentationError'' = (Inr False, example_fs)
   \<and> apply_fix ascii_lower example_ast_parse example_fs ''/repo'' ''calc.py'' 4 INDENTATION
        ''unexpected indent'' ''IndentationError'' = (Inr False, example_fs)"
proof -
  let ?entry = "\<lparr>contents = ''def f('' @ [LF] @ ''    x = 1'' @ [LF] @ ''      return x'' @ [LF],
      readable = True, writable = True\<rparr>"
  have e: "example_fs (path_join ''/repo'' ''calc.py'') = Present ?entry"
    and m: "example_fs (path_join ''/repo'' ''missing.py'') = Missing"
    by (simp_all add: example_fs_def path_join_def)
  have l: "length (splitlines False (contents ?entry)) = 3"
    by (simp add: splitlines_def linebreak_def)
  note r = apply_fix_out_of_range [where fs = example_fs and repo = "''/repo''"
      and fname = "''calc.py''", OF e]
  from l m show ?thesis
    by (simp add: long_name_unreachable apply_fix_unreachable apply_fix_missing r)
qed

subsection \<open>Failure extraction\<close>

lemma dedup_inv_initial: "dedup_inv initial_parse_state"
  by (simp add: dedup_inv_def initial_parse_state_def)

lemma dedup_inv_location: "dedup_inv st \<Longrightarrow> dedup_inv (location_step repo_path line st)"
  by (auto simp: dedup_inv_def location_step_def split: option.splits)

lemma dedup_inv_accumulate: "dedup_inv st \<Longrightarrow> dedup_inv (accumulate line st)"
  by (auto simp: dedup_inv_def accumulate_def)

lemma dedup_inv_error: "dedup_inv st \<Longrightarrow> dedup_inv (error_step line st)"
  unfolding error_step_def
  by (auto simp: dedup_inv_accumulate Let_def split: option.splits prod.splits)
     (auto simp: dedup_inv_def failure_key_def)

lemma dedup_inv_traceback: "dedup_inv st \<Longrightarrow> dedup_inv (traceback_step repo_path line rest st)"
  unfolding traceback_step_def
  by (auto simp: Let_def split: option.splits prod.splits)
     (auto simp: dedup_inv_def failure_key_def)

lemma dedup_inv_parse_lines: "dedup_inv st \<Longrightarrow> dedup_inv (parse_lines repo_path st lines)"
  by (induction lines arbitrary: st)
     (simp_all add: dedup_inv_location dedup_inv_error dedup_inv_traceback)

lemma extends_refl: "extends st st"
  by (simp add: extends_def)

lemma extends_trans: "extends a b \<Longrightarrow> extends b c \<Longrightarrow> extends a c"
  by (auto simp: extends_def)

lemma extends_location: "extends st (location_step repo_path line st)"
  by (auto simp: extends_def location_step_def split: option.splits)

lemma extends_error: "extends st (error_step line st)"
  by (auto simp: extends_def error_step_def accumulate_def Let_def split: option.splits prod.splits)

lemma extends_traceback: "extends st (traceback_step repo_path line rest st)"
  by (auto simp: extends_def traceback_step_def Let_def split: option.splits prod.splits)

lemma extends_parse_lines: "extends st (parse_lines repo_path st lines)"
proof (induction lines arbitrary: st)
  case Nil
  show ?case by (simp add: extends_refl)
next
  case (Cons line rest)
  have "extends st (traceback_step repo_path line rest
                      (error_step line (location_step repo_path line st)))"
    by (blast intro: extends_trans extends_location extends_error extends_traceback)
  with Cons show ?case
    by (auto intro: extends_trans)
qed

text \<open>
  Claim C2. The records that \<open>_parse_pytest_output\<close> returns have pairwise different
  (file, line) pairs, for every output text. From any state of the scan on, over any
  lines, the records already made stay in place at the head of the list and the set
  of seen pairs only grows: the record made first for a pair is the one returned. Both
  report styles test and fill the same set.
\<close>

theorem parse_pytest_output_dedup:
  "distinct (map failure_key (parse_pytest_output output repo_path))
   \<and> (\<exists>new. failures (parse_lines repo_path st lines) = failures st @ new)
   \<and> seen st \<subseteq> seen (parse_lines repo_path st lines)"
  using dedup_inv_parse_lines [OF dedup_inv_initial, of repo_path "split_lf output"]
    extends_parse_lines [of st repo_path lines]
  by (simp add: dedup_inv_def extends_def parse_pytest_output_def)

lemmas parser_defs =
  parse_pytest_output_def initial_parse_state_def location_step_def error_step_def
  accumulate_def traceback_step_def pytest_location_pattern_def pytest_error_pattern_def
  error_type_pattern_def traceback_pattern_at_def spaces_then_rest_def error_suffixes_def
  normalize_file_path_def is_path_char_def is_word_def is_space_def char_class_defs
  regex_defs int_of_digits_def strip_def lstrip_def rstrip_def lstrip_chars_def endswith_def
  Let_def

lemma example_parse:
  "parse_pytest_output example_output ''/repo''
     = [\<lparr>tf_file = ''t.py'', tf_line_number = 3, tf_message = ''name 'os' is not defined'',
         tf_error_type = ''NameError'',
         tf_full_traceback = join_lf [''t.py:3: in f'', ''t.py:3: in f'',
            ''E   NameError: name 'os' is not defined'']\<rparr>]"
  by (simp add: example_output_def parser_defs)


text \<open>
  The sample output reports line 3 of \<open>t.py\<close> first in the pytest style and then in
  the traceback style. One record is returned, the one of the first report.
\<close>

theorem parse_pytest_output_dedup_witness:
  "parse_pytest_output example_output ''/repo''
     = [\<lparr>tf_file = ''t.py'', tf_line_number = 3, tf_message = ''name 'os' is not defined'',
         tf_error_type = ''NameError'',
         tf_full_traceback = join_lf [''t.py:3: in f'', ''t.py:3: in f'',
            ''E   NameError: name 'os' is not defined'']\<rparr>]
   \<and> distinct (map failure_key (parse_pytest_output example_output ''/repo''))"
  using parse_pytest_output_dedup [of example_output "''/repo''"] example_parse
  by simp

subsection \<open>The healing loop\<close>

lemma run_tests_no_records:
  "test_files \<noteq> [] \<Longrightarrow> cp_returncode completed \<noteq> 0
   \<Longrightarrow> \<not> (cp_returncode completed = 4
          \<and> parse_setup_error (cp_stdout completed @ [LF] @ cp_stderr completed) repo_path
              \<noteq> None)
   \<Longrightarrow> parse_pytest_output (cp_stdout completed @ [LF] @ cp_stderr completed) repo_path = []
   \<Longrightarrow> run_tests test_files (Inr completed) repo_path = Inl NoStructuredFailures"
  by (auto simp: run_tests_def Let_def split: option.splits)

lemma iteration_body_raise:
  "run_tests (w_test_files w i) (w_run_pytest w i) repo_path = Inl e
   \<Longrightarrow> iteration_body w repo_path repo_url i (run_state, fs)
       = (Raise e, run_state\<lparr>rs_iterations_used := i\<rparr>, fs)"
  by (simp add: iteration_body_def)

lemma run_iterations_raise:
  "run_tests (w_test_files w i) (w_run_pytest w i) repo_path = Inl e
   \<Longrightarrow> run_iterations w repo_path repo_url (Suc remaining) i (run_state, fs)
       = (Some e, run_state\<lparr>rs_iterations_used := i\<rparr>, fs)"
  by (simp add: iteration_body_raise)

lemma finalize_raised:
  "fst (finalize w (Some e, run_state, fs))
     = run_state\<lparr>rs_status := FAILED, rs_final_status := FAILED,
                 rs_total_fixes := length (rs_fixes run_state),
                 rs_execution_time_seconds := w_elapsed_seconds w,
                 rs_score_base := base_score (calculate_score (w_elapsed_seconds w)
                                                (int (rs_commits run_state))),
                 rs_score_time_bonus := time_bonus (calculate_score (w_elapsed_seconds w)
                                                (int (rs_commits run_state))),
                 rs_score_commit_penalty := commit_penalty (calculate_score (w_elapsed_seconds w)
                                                (int (rs_commits run_state))),
                 rs_score := final_score (calculate_score (w_elapsed_seconds w)
                                                (int (rs_commits run_state)))\<rparr>"
  by (simp add: finalize_def mark_failed_def Let_def)

text \<open>
  Claim C3. When the test files exist, pytest exits with a code other than 0, the run
  is not a set-up failure (exit code 4 with a set-up error that parses) and the
  extraction finds no record, \<open>run_tests\<close> raises. When \<open>run_tests\<close> raises in
  iteration \<open>i\<close>, the loop stops there whatever number of iterations is left: the
  state is the one before the iteration with \<open>iterations_used = i\<close>, the files are
  untouched, and no CI entry is added. The \<open>except\<close> and \<open>finally\<close> clauses then
  set both status fields to \<open>FAILED\<close> and keep the fixes and the timeline recorded
  so far. For a run that fails so in its first iteration this gives \<open>FAILED\<close> with
  one iteration used.
\<close>

theorem extraction_failure_aborts:
  "(test_files \<noteq> [] \<and> cp_returncode completed \<noteq> 0
     \<and> \<not> (cp_returncode completed = 4
          \<and> parse_setup_error (cp_stdout completed @ [LF] @ cp_stderr completed) repo_path
              \<noteq> None)
     \<and> parse_pytest_output (cp_stdout completed @ [LF] @ cp_stderr completed) repo_path = []
    \<longrightarrow> run_tests test_files (Inr completed) repo_path = Inl NoStructuredFailures)
   \<and> (run_tests (w_test_files w i) (w_run_pytest w i) repo_path = Inl e
      \<longrightarrow> run_iterations w repo_path repo_url (Suc remaining) i (run_state, fs)
            = (Some e, run_state\<lparr>rs_iterations_used := i\<rparr>, fs))
   \<and> rs_status (fst (finalize w (Some e, run_state, fs))) = FAILED
   \<and> rs_final_status (fst (finalize w (Some e, run_state, fs))) = FAILED
   \<and> rs_iterations_used (fst (finalize w (Some e, run_state, fs))) = rs_iterations_used run_state
   \<and> rs_fixes (fst (finalize w (Some e, run_state, fs))) = rs_fixes run_state
   \<and> rs_ci_timeline (fst (finalize w (Some e, run_state, fs))) = rs_ci_timeline run_state
   \<and> (w_analyze_repository w = Inr repo_path \<and> w_checkout_or_create_branch w = Inr branch
       \<and> run_tests (w_test_files w 1) (w_run_pytest w 1) repo_path = Inl e
      \<longrightarrow> rs_status (fst (execute_run w (Suc remaining) repo_url (run_state, fs))) = FAILED
          \<and> rs_final_status (fst (execute_run w (Suc remaining) repo_url (run_state, fs)))
              = FAILED
          \<and> rs_iterations_used (fst (execute_run w (Suc remaining) repo_url (run_state, fs)))
              = 1
          \<and> rs_ci_timeline (fst (execute_run w (Suc remaining) repo_url (run_state, fs)))
              = rs_ci_timeline run_state
          \<and> snd (execute_run w (Suc remaining) repo_url (run_state, fs)) = fs)"
proof -
  have x: "execute_run w (Suc remaining) repo_url (run_state, fs)
             = finalize w (Some e, run_state\<lparr>rs_branch_name := branch, rs_iterations_used := 1\<rparr>, fs)"
    if "w_analyze_repository w = Inr repo_path" "w_checkout_or_create_branch w = Inr branch"
       "run_tests (w_test_files w 1) (w_run_pytest w 1) repo_path = Inl e"
    using that by (simp add: execute_run_def try_block_def iteration_body_raise)
  have s: "snd (finalize w out) = snd (snd out)" for out
    by (cases out) (simp add: finalize_def Let_def)
  show ?thesis
    using run_tests_no_records [of test_files completed repo_path]
      run_iterations_raise [of w i repo_path e repo_url remaining run_state fs]
    by (auto simp: x s finalize_raised)
qed

lemmas world_defs = example_world_def garbled_world_def

lemma garbled_parse:
  "parse_pytest_output (''no tests ran'' @ [LF]) ''/repo'' = []"
  by (simp add: parser_defs)

text \<open>
  In \<open>garbled_world\<close> pytest exits with code 1 and prints \<open>no tests ran\<close>. With a
  retry limit of 5 the run is \<open>FAILED\<close> after one iteration.
\<close>

theorem extraction_failure_aborts_witness:
  "run_tests (w_test_files garbled_world 1) (w_run_pytest garbled_world 1) ''/repo''
     = Inl NoStructuredFailures
   \<and> rs_status (fst (execute_run garbled_world 5 ''https://example.org/r.git''
                        (initial_run_state ''TEAM_LEAD_AI_Fix'', app_fs))) = FAILED
   \<and> rs_iterations_used (fst (execute_run garbled_world 5 ''https://example.org/r.git''
                        (initial_run_state ''TEAM_LEAD_AI_Fix'', app_fs))) = 1
   \<and> rs_ci_timeline (fst (execute_run garbled_world 5 ''https://example.org/r.git''
                        (initial_run_state ''TEAM_LEAD_AI_Fix'', app_fs))) = []
   \<and> snd (execute_run garbled_world 5 ''https://example.org/r.git''
                        (initial_run_state ''TEAM_LEAD_AI_Fix'', app_fs)) = app_fs"
proof -
  let ?c = "\<lparr>cp_returncode = 1, cp_stdout = ''no tests ran'', cp_stderr = []\<rparr>"
  have r: "run_tests (w_test_files garbled_world 1) (w_run_pytest garbled_world 1) ''/repo''
             = Inl NoStructuredFailures"
    using extraction_failure_aborts [of "[''/repo/test_app.py'']" ?c "''/repo''"] garbled_parse
    by (simp add: world_defs)
  have a: "w_analyze_repository garbled_world = Inr ''/repo''"
    and c: "w_checkout_or_create_branch garbled_world = Inr ''TEAM_LEAD_AI_Fix''"
    by (simp_all add: world_defs)
  have 5: "(5::nat) = Suc 4" by simp
  show ?thesis
    using extraction_failure_aborts [where w = garbled_world and repo_path = "''/repo''"
        and branch = "''TEAM_LEAD_AI_Fix''" and e = NoStructuredFailures and remaining = 4
        and repo_url = "''https://example.org/r.git''"
        and run_state = "initial_run_state ''TEAM_LEAD_AI_Fix''" and fs = app_fs] r a c
    unfolding 5 by (simp add: initial_run_state_def)
qed

subsection \<open>Counting fixes\<close>

lemma count_fixed_append: "count_fixed (xs @ ys) = count_fixed xs + count_fixed ys"
  by (simp add: count_fixed_def)

lemma count_fixed_le: "count_fixed xs \<le> length xs"
  by (simp add: count_fixed_def)

lemma process_failure_records:
  "process_failure w repo_path failure (run_state, fs, n) = (raised, run_state', fs', n')
   \<Longrightarrow> \<exists>new. rs_fixes run_state' = rs_fixes run_state @ new \<and> n' = n + count_fixed new"
  by (auto simp: process_failure_def Let_def count_fixed_def
      split: prod.splits sum.splits if_splits)

lemma process_failures_records:
  "process_failures w repo_path found (run_state, fs, n) = (raised, run_state', fs', n')
   \<Longrightarrow> \<exists>new. rs_fixes run_state' = rs_fixes run_state @ new \<and> n' = n + count_fixed new"
proof (induction found arbitrary: run_state fs n)
  case Nil
  then show ?case by (simp add: count_fixed_def)
next
  case (Cons failure rest)
  obtain r1 rs1 fs1 n1 where
    p: "process_failure w repo_path failure (run_state, fs, n) = (r1, rs1, fs1, n1)"
    by (metis prod_cases4)
  from process_failure_records [OF p] obtain new1 where
    n1: "rs_fixes rs1 = rs_fixes run_state @ new1" "n1 = n + count_fixed new1"
    by blast
  show ?case
  proof (cases r1)
    case None
    with Cons.prems p have "process_failures w repo_path rest (rs1, fs1, n1)
                              = (raised, run_state', fs', n')"
      by simp
    from Cons.IH [OF this] obtain new2 where
      "rs_fixes run_state' = rs_fixes rs1 @ new2" "n' = n1 + count_fixed new2"
      by blast
    with n1 show ?thesis
      by (intro exI [of _ "new1 @ new2"]) (simp add: count_fixed_append)
  next
    case (Some e)
    with Cons.prems p have "run_state' = rs1" "n' = n1"
      by simp_all
    with n1 show ?thesis by blast
  qed
qed

lemma finalize_total_fixes:
  "rs_total_fixes (fst (finalize w outcome)) = length (rs_fixes (fst (finalize w outcome)))"
  by (cases outcome) (simp add: finalize_def Let_def mark_failed_def split: option.splits)

lemma generate_fix_commit_prefix:
  "generate_fix fname n (Member b) message = Inr proposal
   \<Longrightarrow> enforce_commit_prefix (fp_commit_message proposal) = Inr ()"
  by (auto simp: generate_fix_def Let_def enforce_commit_prefix_def validate_commit_prefix_def
      COMMIT_PREFIX_def split: sum.splits)

text \<open>A run with a retry limit of 1 whose single iteration finds one failure.\<close>

lemma single_failure_run:
  assumes "w_analyze_repository w = Inr repo_path"
    and "w_checkout_or_create_branch w = Inr branch"
    and "run_tests (w_test_files w 1) (w_run_pytest w 1) repo_path
           = Inr \<lparr>tr_passed = False, tr_failures = [failure]\<rparr>"
    and "apply_fix (w_lower w) (w_ast_parse w) fs repo_path (tf_file failure) (tf_line_number failure)
           (classify_bug_type (w_lower w) (tf_error_type failure) (tf_message failure))
           (tf_message failure) (tf_error_type failure) = (Inr applied, fs_after)"
    and "generate_fix (tf_file failure) (tf_line_number failure)
           (Member (classify_bug_type (w_lower w) (tf_error_type failure) (tf_message failure)))
           (tf_message failure) = Inr proposal"
    and "w_commit_all_changes w 1 = Inr committed"
    and "w_push_and_monitor_ci w 1 = Inr ci"
    and "ci_status ci \<noteq> ''PASSED''"
    and "rs_fixes run_state = []"
    and "rs_status run_state = RUNNING"
  shows "rs_status (fst (execute_run w 1 repo_url (run_state, fs))) = FAILED
     \<and> rs_final_status (fst (execute_run w 1 repo_url (run_state, fs))) = FAILED
     \<and> map fr_status (rs_fixes (fst (execute_run w 1 repo_url (run_state, fs))))
         = [if applied then FixStatus_FIXED else FixStatus_FAILED]
     \<and> rs_total_fixes (fst (execute_run w 1 repo_url (run_state, fs))) = 1
     \<and> snd (execute_run w 1 repo_url (run_state, fs)) = fs_after"
proof -
  note cp = generate_fix_commit_prefix [OF assms(5)]
  have e: "enforce_commit_prefix (''[AI-AGENT] Apply '' @ s) = Inr ()" for s
    by (simp add: enforce_commit_prefix_def validate_commit_prefix_def COMMIT_PREFIX_def)
  show ?thesis
    using assms cp e
    by (simp add: execute_run_def try_block_def iteration_body_def tests_failed_branch_def
        process_failure_def finalize_def mark_failed_def mark_passed_def ci_record_def Let_def)
qed


lemma count_fixed_single:
  "map fr_status records = [FixStatus_FIXED] \<Longrightarrow> count_fixed records = 1"
  "map fr_status records = [FixStatus_FAILED] \<Longrightarrow> count_fixed records = 0"
  by (cases records; simp add: count_fixed_def)+

text \<open>
  Claim C7, as amended. The counter \<open>fixes_applied\<close> of an iteration grows by the
  number of records with status \<open>FIXED\<close> that the iteration appends: only an applied
  fix increments it. The reported \<open>total_fixes\<close> is the number of fix records,
  applied or not, which is at least the number of \<open>FIXED\<close> ones. In a run with a
  retry limit of 1 whose only iteration finds one failure, fixes it, and gets a CI
  answer other than \<open>PASSED\<close>, the run ends \<open>FAILED\<close> with one record, marked
  \<open>FIXED\<close>, and \<open>total_fixes = 1\<close>.
\<close>

theorem fixes_applied_counter:
  "(process_failures w repo_path found (run_state, fs, n) = (raised, run_state', fs', n')
      \<longrightarrow> (\<exists>new. rs_fixes run_state' = rs_fixes run_state @ new \<and> n' = n + count_fixed new))
   \<and> rs_total_fixes (fst (execute_run w retry_limit repo_url s))
       = length (rs_fixes (fst (execute_run w retry_limit repo_url s)))
   \<and> count_fixed (rs_fixes (fst (execute_run w retry_limit repo_url s)))
       \<le> rs_total_fixes (fst (execute_run w retry_limit repo_url s))
   \<and> (w_analyze_repository w = Inr repo_path
       \<and> w_checkout_or_create_branch w = Inr branch
       \<and> run_tests (w_test_files w 1) (w_run_pytest w 1) repo_path
           = Inr \<lparr>tr_passed = False, tr_failures = [failure]\<rparr>
       \<and> apply_fix (w_lower w) (w_ast_parse w) fs repo_path (tf_file failure) (tf_line_number failure)
           (classify_bug_type (w_lower w) (tf_error_type failure) (tf_message failure))
           (tf_message failure) (tf_error_type failure) = (Inr True, fs_after)
       \<and> generate_fix (tf_file failure) (tf_line_number failure)
           (Member (classify_bug_type (w_lower w) (tf_error_type failure) (tf_message failure)))
           (tf_message failure) = Inr proposal
       \<and> w_commit_all_changes w 1 = Inr committed
       \<and> w_push_and_monitor_ci w 1 = Inr ci
       \<and> ci_status ci \<noteq> ''PASSED''
       \<and> rs_fixes run_state = [] \<and> rs_status run_state = RUNNING
      \<longrightarrow> rs_status (fst (execute_run w 1 repo_url (run_state, fs))) = FAILED
          \<and> rs_final_status (fst (execute_run w 1 repo_url (run_state, fs))) = FAILED
          \<and> map fr_status (rs_fixes (fst (execute_run w 1 repo_url (run_state, fs))))
              = [FixStatus_FIXED]
          \<and> rs_total_fixes (fst (execute_run w 1 repo_url (run_state, fs))) = 1)"
proof -
  have t: "rs_total_fixes (fst (execute_run w retry_limit repo_url s))
       = length (rs_fixes (fst (execute_run w retry_limit repo_url s)))"
    unfolding execute_run_def by (rule finalize_total_fixes)
  have c: "count_fixed (rs_fixes (fst (execute_run w retry_limit repo_url s)))
       \<le> rs_total_fixes (fst (execute_run w retry_limit repo_url s))"
    unfolding t by (rule count_fixed_le)
  show ?thesis
    using t c
      process_failures_records [of w repo_path found run_state fs n raised run_state' fs' n']
      single_failure_run [of w repo_path branch failure fs True fs_after proposal committed ci
        run_state repo_url]
    by auto
qed

lemma example_run_tests:
  "run_tests (w_test_files example_world 1) (w_run_pytest example_world 1) ''/repo''
     = Inr \<lparr>tr_passed = False, tr_failures = [example_failure]\<rparr>"
  by (simp add: example_world_def run_tests_def example_failure_def parser_defs)

lemma example_classify:
  "classify_bug_type ascii_lower (tf_error_type example_failure) (tf_message example_failure)
     = IMPORT"
  by (simp add: example_failure_def classify_bug_type_def ascii_lower_def char_class_defs)

lemma example_apply_fix:
  "apply_fix ascii_lower (w_ast_parse example_world) app_fs ''/repo'' (tf_file example_failure)
     (tf_line_number example_failure) IMPORT (tf_message example_failure)
     (tf_error_type example_failure)
   = (Inr True,
      app_fs(''/repo/app.py'' := Present
        \<lparr>contents = ''import os'' @ [LF, LF] @ ''print(os.getcwd())'' @ [LF],
         readable = True, writable = True\<rparr>))"
  by (simp add: example_failure_def example_world_def app_fs_def apply_fix_def path_join_def
      heuristics_defs name_not_defined_at_def regex_defs is_quote_def is_word_def
      common_imports_def Let_def)

lemma example_apply_fix_missing:
  "apply_fix ascii_lower (w_ast_parse example_world) empty_fs ''/repo'' (tf_file example_failure)
     (tf_line_number example_failure) IMPORT (tf_message example_failure)
     (tf_error_type example_failure)
   = (Inr False, empty_fs)"
  by (simp add: apply_fix_missing empty_fs_def)

lemma example_generate_fix:
  "generate_fix (tf_file example_failure) (tf_line_number example_failure) (Member IMPORT)
     (tf_message example_failure)
   = Inr \<lparr>fp_file = ''app.py'', fp_line_number = 1, fp_bug_type = IMPORT,
          fp_commit_message = ''[AI-AGENT] Fix import issue in app.py'',
          fp_strict_output = ''IMPORT error in app.py line 1 '' @ arrow
                               @ '' Fix: add the missing import statement''\<rparr>"
  by (simp add: example_failure_def generate_fix_def generate_deterministic_fix_def
      FIX_MAPPING_get_def FIX_MAPPING_def validate_strict_output_format_def Let_def
      str_of_int_def digits_of_nat.simps digit_char_def strict_output_match_def
      strict_tail_def dot_plus_end_def regex_defs is_upper_or_underscore_def
      is_ascii_upper_def is_digit_def ascii_lower_def lower_char_def)

text \<open>
  The scenario of the specification: the test fails with an undefined name \<open>os\<close>,
  the heuristic puts \<open>import os\<close> at the head of \<open>app.py\<close>, and the retry limit
  is 1.
\<close>

theorem fixes_applied_counter_witness:
  "rs_status (fst (execute_run example_world 1 ''https://example.org/r.git''
                     (initial_run_state ''TEAM_LEAD_AI_Fix'', app_fs))) = FAILED
   \<and> map fr_status (rs_fixes (fst (execute_run example_world 1 ''https://example.org/r.git''
                     (initial_run_state ''TEAM_LEAD_AI_Fix'', app_fs)))) = [FixStatus_FIXED]
   \<and> rs_total_fixes (fst (execute_run example_world 1 ''https://example.org/r.git''
                     (initial_run_state ''TEAM_LEAD_AI_Fix'', app_fs))) = 1
   \<and> count_fixed (rs_fixes (fst (execute_run example_world 1 ''https://example.org/r.git''
                     (initial_run_state ''TEAM_LEAD_AI_Fix'', app_fs)))) = 1"
proof -
  have w: "w_analyze_repository example_world = Inr ''/repo''"
    "w_lower example_world = ascii_lower"
    "w_checkout_or_create_branch example_world = Inr ''TEAM_LEAD_AI_Fix''"
    "w_commit_all_changes example_world 1 = Inr True"
    "w_push_and_monitor_ci example_world 1
       = Inr \<lparr>ci_status = ''FAILED'', ci_timestamp = ''t1'',
              ci_details = ''Invalid GitHub repository URL''\<rparr>"
    by (simp_all add: example_world_def)
  have i: "rs_fixes (initial_run_state ''TEAM_LEAD_AI_Fix'') = []"
    "rs_status (initial_run_state ''TEAM_LEAD_AI_Fix'') = RUNNING"
    by (simp_all add: initial_run_state_def)
  from fixes_applied_counter [where w = example_world and repo_path = "''/repo''"
      and failure = example_failure and fs = app_fs and committed = True
      and branch = "''TEAM_LEAD_AI_Fix''"
      and run_state = "initial_run_state ''TEAM_LEAD_AI_Fix''"
      and repo_url = "''https://example.org/r.git''"
      and fs_after = "app_fs(''/repo/app.py'' := Present
        \<lparr>contents = ''import os'' @ [LF, LF] @ ''print(os.getcwd())'' @ [LF],
         readable = True, writable = True\<rparr>)"
      and proposal = "\<lparr>fp_file = ''app.py'', fp_line_number = 1, fp_bug_type = IMPORT,
          fp_commit_message = ''[AI-AGENT] Fix import issue in app.py'',
          fp_strict_output = ''IMPORT error in app.py line 1 '' @ arrow
                               @ '' Fix: add the missing import statement''\<rparr>"
      and ci = "\<lparr>ci_status = ''FAILED'', ci_timestamp = ''t1'',
              ci_details = ''Invalid GitHub repository URL''\<rparr>",
      THEN conjunct2, THEN conjunct2, THEN conjunct2]
    w i example_run_tests example_classify example_apply_fix example_generate_fix
  have "rs_status (fst (execute_run example_world 1 ''https://example.org/r.git''
                     (initial_run_state ''TEAM_LEAD_AI_Fix'', app_fs))) = FAILED
   \<and> map fr_status (rs_fixes (fst (execute_run example_world 1 ''https://example.org/r.git''
                     (initial_run_state ''TEAM_LEAD_AI_Fix'', app_fs)))) = [FixStatus_FIXED]
   \<and> rs_total_fixes (fst (execute_run example_world 1 ''https://example.org/r.git''
                     (initial_run_state ''TEAM_LEAD_AI_Fix'', app_fs))) = 1"
    by simp
  then show ?thesis
    by (simp add: count_fixed_single)
qed

text \<open>
  The same run on a repository where \<open>app.py\<close> is missing: the fix is not applied,
  its record has status \<open>FAILED\<close>, and \<open>total_fixes\<close> is 1 while no record is
  \<open>FIXED\<close>.
\<close>

theorem total_fixes_counts_failed_counterexample:
  "rs_total_fixes (fst (execute_run example_world 1 ''https://example.org/r.git''
                     (initial_run_state ''TEAM_LEAD_AI_Fix'', empty_fs))) = 1
   \<and> count_fixed (rs_fixes (fst (execute_run example_world 1 ''https://example.org/r.git''
                     (initial_run_state ''TEAM_LEAD_AI_Fix'', empty_fs)))) = 0
   \<and> rs_total_fixes (fst (execute_run example_world 1 ''https://example.org/r.git''
                     (initial_run_state ''TEAM_LEAD_AI_Fix'', empty_fs)))
      \<noteq> count_fixed (rs_fixes (fst (execute_run example_world 1 ''https://example.org/r.git''
                     (initial_run_state ''TEAM_LEAD_AI_Fix'', empty_fs))))"
proof -
  have w: "w_analyze_repository example_world = Inr ''/repo''"
    "w_lower example_world = ascii_lower"
    "w_checkout_or_create_branch example_world = Inr ''TEAM_LEAD_AI_Fix''"
    "w_commit_all_changes example_world 1 = Inr True"
    "w_push_and_monitor_ci example_world 1
       = Inr \<lparr>ci_status = ''FAILED'', ci_timestamp = ''t1'',
              ci_details = ''Invalid GitHub repository URL''\<rparr>"
    by (simp_all add: example_world_def)
  have i: "rs_fixes (initial_run_state ''TEAM_LEAD_AI_Fix'') = []"
    "rs_status (initial_run_state ''TEAM_LEAD_AI_Fix'') = RUNNING"
    by (simp_all add: initial_run_state_def)
  from single_failure_run [where w = example_world and repo_path = "''/repo''"
      and failure = example_failure and fs = empty_fs and applied = False
      and fs_after = empty_fs and committed = True and branch = "''TEAM_LEAD_AI_Fix''"
      and run_state = "initial_run_state ''TEAM_LEAD_AI_Fix''"
      and repo_url = "''https://example.org/r.git''"
      and proposal = "\<lparr>fp_file = ''app.py'', fp_line_number = 1, fp_bug_type = IMPORT,
          fp_commit_message = ''[AI-AGENT] Fix import issue in app.py'',
          fp_strict_output = ''IMPORT error in app.py line 1 '' @ arrow
                               @ '' Fix: add the missing import statement''\<rparr>"
      and ci = "\<lparr>ci_status = ''FAILED'', ci_timestamp = ''t1'',
              ci_details = ''Invalid GitHub repository URL''\<rparr>"]
    w i example_run_tests example_classify example_apply_fix_missing example_generate_fix
  have "map fr_status (rs_fixes (fst (execute_run example_world 1 ''https://example.org/r.git''
                     (initial_run_state ''TEAM_LEAD_AI_Fix'', empty_fs)))) = [FixStatus_FAILED]
   \<and> rs_total_fixes (fst (execute_run example_world 1 ''https://example.org/r.git''
                     (initial_run_state ''TEAM_LEAD_AI_Fix'', empty_fs))) = 1"
    by simp
  then show ?thesis
    by (simp add: count_fixed_single)
qed

end
